theory Spec2Isabelle
  imports Main "HOL-Library.List_Lexorder" "HOL-Library.Char_ord"
begin

section \<open>The keyring of \<^verbatim>\<open>nomad/encrypter.go\<close>\<close>

text \<open>
  A shallow embedding of the \<^verbatim>\<open>Encrypter\<close> of \<^verbatim>\<open>nomad/encrypter.go\<close>: the in-memory
  keyring, variable encryption, workload-identity signing and the on-disk keystore.
  Go's \<^verbatim>\<open>string\<close> and \<^verbatim>\<open>[]byte\<close> are both sequences of 8-bit characters, so both are
  \<^typ>\<open>string\<close> here and the conversion \<^verbatim>\<open>[]byte(keyID)\<close> is the identity.
\<close>

type_synonym bytes = string

subsection \<open>Errors, panics and results\<close>

text \<open>
  One constructor for each place where the file builds an error with \<^verbatim>\<open>fmt.Errorf\<close>
  (wrapping the cause where the source does), \<open>ErrAuth\<close> for the error of
  \<^verbatim>\<open>cipher.AEAD.Open\<close> and \<open>ErrLib\<close> for an error that a library, the state store or the
  operating system hands back unchanged.
\<close>

datatype error =
    ErrLib string
  | ErrAuth
  | ErrNotInitialized
  | ErrNoSuchKey string
  | ErrNonce error
  | ErrMissingMetadata
  | ErrCreateCipher error
  | ErrInvalidAlgorithm string
  | ErrParseRSA error
  | ErrReadPath string error
  | ErrLoadKeyFile string error
  | ErrKeyIDMismatch string string
  | ErrAddKeyFile string error
  | ErrWrapperKey error
  | ErrEncryptRootKey error
  | ErrEncryptRSAKey error
  | ErrWrapperCipher error
  | ErrDecryptRootKey error
  | ErrDecryptRSAKey error
  | ErrParseToken error
  | ErrInvalidSignature error
  | ErrInvalidClaims error

text \<open>
  A Go function of this file returns normally (with a value, or with a non-nil error) or
  panics at run time; \<open>Panic\<close> carries the run-time message.
\<close>

datatype 'a result = Ok 'a | Err error | Panic string

fun is_Ok :: "'a result \<Rightarrow> bool" where
  "is_Ok (Ok _) = True"
| "is_Ok _ = False"

subsection \<open>Slices\<close>

text \<open>
  A Go slice is a window on a backing array: \<open>visible\<close> are its \<^verbatim>\<open>len\<close> elements and
  \<open>spare\<close> the rest of the array up to \<^verbatim>\<open>cap\<close>. The expression \<^verbatim>\<open>s[:n]\<close> may reach into
  the spare capacity and panics beyond it; \<^verbatim>\<open>s[n:]\<close> stands for \<^verbatim>\<open>s[n:len(s)]\<close> and
  panics when \<open>n\<close> is larger than the length.
\<close>

record go_slice =
  visible :: bytes
  spare :: bytes

definition slice_upto :: "go_slice \<Rightarrow> nat \<Rightarrow> bytes result" where
  "slice_upto s n =
     (if n \<le> length (visible s) + length (spare s)
      then Ok (take n (visible s @ spare s))
      else Panic ''slice bounds out of range'')"

definition slice_from :: "go_slice \<Rightarrow> nat \<Rightarrow> bytes result" where
  "slice_from s n =
     (if n \<le> length (visible s)
      then Ok (drop n (visible s))
      else Panic ''slice bounds out of range'')"

subsection \<open>The cipher\<close>

text \<open>
  \<^verbatim>\<open>cipher.AEAD\<close> is an interface of Go's standard library; the keyring holds the GCM
  instance that \<open>addCipher\<close> builds. The algorithm itself is a parameter of the model:
  \<open>seal\<close> maps nonce, plaintext and additional data to ciphertext with tag, \<open>unseal\<close> is
  its authenticated inverse. \<open>Seal\<close> and \<open>Open\<close> are the interface's methods: both
  append their output to \<open>dst\<close>, GCM panics on a nonce of the wrong length, and \<open>Open\<close>
  reports a failed authentication as an error.
\<close>

record aead =
  NonceSize :: nat
  Overhead :: nat
  seal :: "bytes \<Rightarrow> bytes \<Rightarrow> bytes \<Rightarrow> bytes"
  unseal :: "bytes \<Rightarrow> bytes \<Rightarrow> bytes \<Rightarrow> bytes option"

definition Seal :: "aead \<Rightarrow> bytes \<Rightarrow> bytes \<Rightarrow> bytes \<Rightarrow> bytes \<Rightarrow> bytes result" where
  "Seal c dst nonce plaintext additional =
     (if length nonce \<noteq> NonceSize c then Panic ''incorrect nonce length given to GCM''
      else Ok (dst @ seal c nonce plaintext additional))"

definition Open :: "aead \<Rightarrow> bytes \<Rightarrow> bytes \<Rightarrow> bytes \<Rightarrow> bytes \<Rightarrow> bytes result" where
  "Open c dst nonce ciphertext additional =
     (if length nonce \<noteq> NonceSize c then Panic ''incorrect nonce length given to GCM''
      else case unseal c nonce ciphertext additional of
             None \<Rightarrow> Err ErrAuth
           | Some plaintext \<Rightarrow> Ok (dst @ plaintext))"

subsection \<open>Keys and the keyring\<close>

text \<open>
  Modelled from the spec: the declarations of \<^verbatim>\<open>structs.KEKProvider\<close>,
  \<^verbatim>\<open>structs.KEKProviderConfig\<close>, \<^verbatim>\<open>structs.RootKeyMeta\<close> and \<^verbatim>\<open>structs.RootKey\<close> are not
  among the sources; the fields are the ones of the spec's data model that
  \<^verbatim>\<open>encrypter.go\<close> reads. A Go pointer that may be nil is an \<^typ>\<open>'a option\<close>.
\<close>

record kek_provider =
  Provider :: string
  Name :: string

record kek_provider_config =
  cfg_Provider :: string
  cfg_Name :: string
  cfg_Config :: "(string \<times> string) list"

record root_key_meta =
  KeyID :: string
  Algorithm :: string
  CreateTime :: int
  State :: string
  KEKProviders :: "kek_provider option list"
  ModifyIndex :: nat

record root_key =
  Meta :: "root_key_meta option"
  Key :: bytes
  RSAKey :: bytes

text \<open>Modelled from the spec: the constant \<^verbatim>\<open>structs.EncryptionAlgorithmAES256GCM\<close>.\<close>

definition EncryptionAlgorithmAES256GCM :: string where
  "EncryptionAlgorithmAES256GCM = ''aes256-gcm''"

text \<open>
  \<^verbatim>\<open>rsa.PrivateKey\<close> and \<^verbatim>\<open>rsa.PublicKey\<close> are opaque to this file; a key is
  represented by the bytes that identify it.
\<close>

datatype rsa_private_key = RSAPrivateKey bytes
datatype rsa_public_key = RSAPublicKey bytes

record keyset =
  rootKey :: root_key
  cipher :: aead
  eddsaPrivateKey :: bytes
  rsaPrivateKey :: "rsa_private_key option"
  rsaPKCS1PublicKey :: bytes

text \<open>
  The \<^verbatim>\<open>Encrypter\<close>. \<open>providerConfigs\<close> is a Go map that may be nil (\<open>None\<close>): reading
  a nil map finds nothing, assigning to it panics. The server \<^verbatim>\<open>srv\<close> is passed to the
  functions that read it.
\<close>

record encrypter =
  providerConfigs :: "(string \<rightharpoonup> kek_provider_config) option"
  keystorePath :: string
  issuer :: string
  keyring :: "string \<rightharpoonup> keyset"

text \<open>
  What \<^verbatim>\<open>encrypter.go\<close> reads of the \<^verbatim>\<open>Server\<close>: the answer of the state store's
  \<^verbatim>\<open>GetActiveRootKeyMeta\<close> and two fields of the configuration.
\<close>

record server =
  GetActiveRootKeyMeta :: "error + root_key_meta option"
  OIDCIssuer :: string
  KEKProviderConfigs :: "kek_provider_config option list"

definition keysetByIDLocked :: "encrypter \<Rightarrow> string \<Rightarrow> keyset result" where
  "keysetByIDLocked e keyID =
     (case keyring e keyID of
        None \<Rightarrow> Err (ErrNoSuchKey keyID)
      | Some ks \<Rightarrow> Ok ks)"

definition activeKeySet :: "server \<Rightarrow> encrypter \<Rightarrow> keyset result" where
  "activeKeySet srv e =
     (case GetActiveRootKeyMeta srv of
        Inl err \<Rightarrow> Err err
      | Inr None \<Rightarrow> Err ErrNotInitialized
      | Inr (Some keyMeta) \<Rightarrow> keysetByIDLocked e (KeyID keyMeta))"

subsection \<open>Encrypt and Decrypt\<close>

text \<open>
  Modelled from the spec: \<^verbatim>\<open>crypto.Bytes\<close> of \<^verbatim>\<open>helper/crypto\<close> is not among the sources.
  It reads the requested number of bytes from the cryptographic random source; here the
  source is the sequence of bytes it is going to deliver, and a source that delivers
  fewer bytes than requested is the error.
\<close>

definition crypto_Bytes :: "nat \<Rightarrow> bytes \<Rightarrow> error + bytes" where
  "crypto_Bytes n rand =
     (if length rand < n then Inl (ErrLib ''could not read from random source'')
      else Inr (take n rand))"

definition Encrypt :: "server \<Rightarrow> encrypter \<Rightarrow> bytes \<Rightarrow> bytes \<Rightarrow> (bytes \<times> string) result" where
  "Encrypt srv e rand cleartext =
     (case activeKeySet srv e of
        Err err \<Rightarrow> Err err
      | Panic msg \<Rightarrow> Panic msg
      | Ok ks \<Rightarrow>
          (case crypto_Bytes (NonceSize (cipher ks)) rand of
             Inl err \<Rightarrow> Err (ErrNonce err)
           | Inr nonce \<Rightarrow>
               (case Meta (rootKey ks) of
                  None \<Rightarrow> Panic ''nil pointer dereference''
                | Some meta \<Rightarrow>
                    (let keyID = KeyID meta; additional = keyID in
                     case Seal (cipher ks) nonce nonce cleartext additional of
                       Ok ciphertext \<Rightarrow> Ok (ciphertext, keyID)
                     | Err err \<Rightarrow> Err err
                     | Panic msg \<Rightarrow> Panic msg))))"

definition Decrypt :: "encrypter \<Rightarrow> go_slice \<Rightarrow> string \<Rightarrow> bytes result" where
  "Decrypt e ciphertext keyID =
     (case keysetByIDLocked e keyID of
        Err err \<Rightarrow> Err err
      | Panic msg \<Rightarrow> Panic msg
      | Ok ks \<Rightarrow>
          (let nonceSize = NonceSize (cipher ks) in
           case slice_upto ciphertext nonceSize of
             Err err \<Rightarrow> Err err
           | Panic msg \<Rightarrow> Panic msg
           | Ok nonce \<Rightarrow>
               (let additional = keyID in
                case slice_from ciphertext nonceSize of
                  Err err \<Rightarrow> Err err
                | Panic msg \<Rightarrow> Panic msg
                | Ok body \<Rightarrow> Open (cipher ks) [] nonce body additional)))"

subsection \<open>The libraries\<close>

text \<open>
  The cryptography, the token format and the key-management wrappers are libraries
  outside the repository (\<^verbatim>\<open>crypto/aes\<close>, \<^verbatim>\<open>crypto/cipher\<close>, \<^verbatim>\<open>crypto/ed25519\<close>,
  \<^verbatim>\<open>crypto/x509\<close>, \<^verbatim>\<open>go-jose\<close>, \<^verbatim>\<open>go-kms-wrapping\<close>); \<^verbatim>\<open>RootKeyMeta.Validate\<close> belongs to
  the repository's \<^verbatim>\<open>structs\<close> package, which is not among the sources. Each function
  that \<^verbatim>\<open>encrypter.go\<close> calls is a field of the record \<open>library\<close>, a parameter of the
  model. A library function that returns \<^verbatim>\<open>(value, error)\<close> is a sum, one that returns
  only an error is an \<^typ>\<open>error option\<close>.
\<close>

datatype aes_block = AESBlock bytes

datatype signing_key = SignRSA rsa_private_key | SignEd25519 bytes

datatype public_key = Ed25519PublicKey bytes | RSAPublic rsa_public_key

text \<open>
  Modelled from the spec: \<^verbatim>\<open>structs.IdentityClaims\<close> is not among the sources. The
  registered claims the spec names are fields; every other claim is an entry of
  \<open>Other\<close>.
\<close>

record identity_claims =
  Issuer :: string
  Subject :: string
  Expiry :: "int option"
  NotBefore :: "int option"
  Other :: "(string \<times> string) list"

text \<open>
  \<^verbatim>\<open>jose.Signer\<close> as \<^verbatim>\<open>jose.NewSigner\<close> configures it: the algorithm, the key and the
  extra headers of the options. \<^verbatim>\<open>jwt.JSONWebToken\<close> shows its parsed headers; the rest
  of the token is opaque.
\<close>

datatype signer = Signer string signing_key "(string \<times> string) list"

record jose_header =
  hdr_KeyID :: string
  hdr_Algorithm :: string

record json_web_token =
  Headers :: "jose_header list"
  compact :: string

text \<open>
  A wrapper of \<^verbatim>\<open>go-kms-wrapping\<close> as \<open>newKMSWrapper\<close> leaves it: one of the external
  services with the configuration map it was given (if any), or the built-in AEAD
  wrapper with its key ID and key-encryption key.
\<close>

datatype kms_wrapper =
    ExternalWrapper string "(string \<times> string) list option"
  | AeadWrapper string bytes

record library =
  aes_NewCipher :: "bytes \<Rightarrow> error + aes_block"
  cipher_NewGCM :: "aes_block \<Rightarrow> error + aead"
  ed25519_NewKeyFromSeed :: "bytes \<Rightarrow> bytes"
  ed25519_Public :: "bytes \<Rightarrow> bytes"
  x509_ParsePKCS1PrivateKey :: "bytes \<Rightarrow> error + rsa_private_key"
  rsa_PublicKey :: "rsa_private_key \<Rightarrow> rsa_public_key"
  x509_MarshalPKCS1PublicKey :: "rsa_public_key \<Rightarrow> bytes"
  x509_ParsePKCS1PublicKey :: "bytes \<Rightarrow> error + rsa_public_key"
  jose_NewSigner :: "string \<Rightarrow> signing_key \<Rightarrow> (string \<times> string) list \<Rightarrow> error + signer"
  jwt_CompactSerialize :: "signer \<Rightarrow> identity_claims \<Rightarrow> error + string"
  jwt_ParseSigned :: "string \<Rightarrow> error + json_web_token"
  jwt_Claims :: "json_web_token \<Rightarrow> public_key \<Rightarrow> error + identity_claims"
  claims_Validate :: "identity_claims \<Rightarrow> error option"
  meta_Validate :: "root_key_meta option \<Rightarrow> error option"
  kms_SetConfig :: "string \<Rightarrow> (string \<times> string) list \<Rightarrow> error option"
  aead_SetAesGcmKeyBytes :: "bytes \<Rightarrow> error option"
  kms_Encrypt :: "kms_wrapper \<Rightarrow> bytes \<Rightarrow> error + bytes"
  kms_Decrypt :: "kms_wrapper \<Rightarrow> bytes \<Rightarrow> error + bytes"

subsection \<open>Installing, reading and removing keys\<close>

text \<open>
  \<open>addCipher\<close>. \<^verbatim>\<open>ed25519.NewKeyFromSeed\<close> panics on a seed that is not 32 bytes long;
  the source calls it on \<^verbatim>\<open>rootKey.Key\<close> after the AES cipher has accepted the key.
\<close>

definition addCipher :: "library \<Rightarrow> encrypter \<Rightarrow> root_key option \<Rightarrow> encrypter result" where
  "addCipher lib e rkey =
     (case rkey of
        None \<Rightarrow> Err ErrMissingMetadata
      | Some rk \<Rightarrow>
     (case Meta rk of
        None \<Rightarrow> Err ErrMissingMetadata
      | Some meta \<Rightarrow>
          if Algorithm meta = EncryptionAlgorithmAES256GCM then
            (case aes_NewCipher lib (Key rk) of
               Inl err \<Rightarrow> Err (ErrCreateCipher err)
             | Inr block \<Rightarrow>
            (case cipher_NewGCM lib block of
               Inl err \<Rightarrow> Err (ErrCreateCipher err)
             | Inr aead \<Rightarrow>
                 if length (Key rk) \<noteq> 32 then Panic ''ed25519: bad seed length''
                 else
                   (let ed25519Key = ed25519_NewKeyFromSeed lib (Key rk);
                        ks = \<lparr>rootKey = rk, cipher = aead, eddsaPrivateKey = ed25519Key,
                              rsaPrivateKey = None, rsaPKCS1PublicKey = []\<rparr>
                    in if length (RSAKey rk) > 0 then
                         (case x509_ParsePKCS1PrivateKey lib (RSAKey rk) of
                            Inl err \<Rightarrow> Err (ErrParseRSA err)
                          | Inr rsaKey \<Rightarrow>
                              Ok (e\<lparr>keyring := (keyring e)(KeyID meta \<mapsto>
                                    ks\<lparr>rsaPrivateKey := Some rsaKey,
                                       rsaPKCS1PublicKey :=
                                         x509_MarshalPKCS1PublicKey lib (rsa_PublicKey lib rsaKey)\<rparr>)\<rparr>))
                       else Ok (e\<lparr>keyring := (keyring e)(KeyID meta \<mapsto> ks)\<rparr>))))
          else Err (ErrInvalidAlgorithm (Algorithm meta))))"

definition GetKey :: "encrypter \<Rightarrow> string \<Rightarrow> (bytes \<times> bytes) result" where
  "GetKey e keyID =
     (case keysetByIDLocked e keyID of
        Err err \<Rightarrow> Err err
      | Panic msg \<Rightarrow> Panic msg
      | Ok ks \<Rightarrow> Ok (Key (rootKey ks), RSAKey (rootKey ks)))"

definition RemoveKey :: "encrypter \<Rightarrow> string \<Rightarrow> encrypter" where
  "RemoveKey e keyID = e\<lparr>keyring := (keyring e)(keyID := None)\<rparr>"





subsection \<open>Signing and verifying claims\<close>

text \<open>
  \<open>SignClaims\<close> first asks for the active keyset. When that fails it enters the retry
  loop: a \<^verbatim>\<open>for\<close> around a \<^verbatim>\<open>select\<close> on the five-second context. Each round of the loop
  either finds the context done and returns \<^verbatim>\<open>"", "", err\<close>, or sleeps, asks again and
  assigns \<^verbatim>\<open>keyset\<close> and \<^verbatim>\<open>err\<close>; the \<^verbatim>\<open>break\<close> after a successful poll leaves the
  \<^verbatim>\<open>select\<close> only, so the \<^verbatim>\<open>for\<close> goes on to its next round. The rounds in which the
  context is not yet done are the list \<open>polls\<close>: the server and keyring that each poll
  observes. The context is done when the list is exhausted. The loop's state is the pair
  of the variables \<^verbatim>\<open>keyset\<close> and \<^verbatim>\<open>err\<close>; a Go return of \<^verbatim>\<open>"", "", nil\<close> is
  \<open>Ok (, )\<close>.
\<close>

fun retry_loop ::
  "(server \<times> encrypter) list \<Rightarrow> keyset option \<times> error option
     \<Rightarrow> (keyset option \<times> error option) result"
where
  "retry_loop [] st = Ok st"
| "retry_loop ((srv, e) # polls) st =
     (case activeKeySet srv e of
        Ok ks \<Rightarrow> retry_loop polls (Some ks, None)
      | Err err \<Rightarrow> retry_loop polls (None, Some err)
      | Panic msg \<Rightarrow> Panic msg)"

text \<open>
  The part of \<open>SignClaims\<close> after the retry block. The claims are taken non-nil; the
  source also writes the issuer into the caller's structure.
\<close>

definition sign_with :: "library \<Rightarrow> encrypter \<Rightarrow> keyset \<Rightarrow> identity_claims \<Rightarrow> (string \<times> string) result" where
  "sign_with lib e ks claims =
     (let claims' = (if issuer e \<noteq> [] then claims\<lparr>Issuer := issuer e\<rparr> else claims) in
      case Meta (rootKey ks) of
        None \<Rightarrow> Panic ''nil pointer dereference''
      | Some meta \<Rightarrow>
          (let opts = [(''kid'', KeyID meta), (''typ'', ''JWT'')] in
           case (case rsaPrivateKey ks of
                   Some rsaKey \<Rightarrow> jose_NewSigner lib ''RS256'' (SignRSA rsaKey) opts
                 | None \<Rightarrow> jose_NewSigner lib ''EdDSA'' (SignEd25519 (eddsaPrivateKey ks)) opts) of
             Inl err \<Rightarrow> Err err
           | Inr sig \<Rightarrow>
               (case jwt_CompactSerialize lib sig claims' of
                  Inl err \<Rightarrow> Err err
                | Inr raw \<Rightarrow> Ok (raw, KeyID meta))))"

definition SignClaims ::
  "library \<Rightarrow> server \<Rightarrow> encrypter \<Rightarrow> (server \<times> encrypter) list \<Rightarrow> identity_claims
     \<Rightarrow> (string \<times> string) result"
where
  "SignClaims lib srv e polls claims =
     (case activeKeySet srv e of
        Ok ks \<Rightarrow> sign_with lib e ks claims
      | Panic msg \<Rightarrow> Panic msg
      | Err err \<Rightarrow>
          (case retry_loop polls (None, Some err) of
             Panic msg \<Rightarrow> Panic msg
           | Err err' \<Rightarrow> Err err'
           | Ok (ks, None) \<Rightarrow> Ok ([], [])
           | Ok (ks, Some err') \<Rightarrow> Err err'))"



subsection \<open>File names\<close>

definition nomadKeystoreExtension :: string where
  "nomadKeystoreExtension = ''.nks.json''"

text \<open>\<^verbatim>\<open>strings.HasSuffix\<close>, \<^verbatim>\<open>strings.TrimSuffix\<close> and \<^verbatim>\<open>filepath.Base\<close>.\<close>

definition has_suffix :: "string \<Rightarrow> string \<Rightarrow> bool" where
  "has_suffix s suffix =
     (length suffix \<le> length s \<and> drop (length s - length suffix) s = suffix)"

definition trim_suffix :: "string \<Rightarrow> string \<Rightarrow> string" where
  "trim_suffix s suffix =
     (if has_suffix s suffix then take (length s - length suffix) s else s)"

definition path_base :: "string \<Rightarrow> string" where
  "path_base path =
     (if path = [] then ''.''
      else (let stripped = rev (dropWhile (\<lambda>c. c = CHR ''/'') (rev path));
                element = rev (takeWhile (\<lambda>c. c \<noteq> CHR ''/'') (rev stripped))
            in if element = [] then ''/'' else element))"

text \<open>
  \<^verbatim>\<open>filepath.Join\<close> of a directory and a file name. The keystore path is taken clean (no
  trailing separator) and a key ID free of separators, so joining puts one separator
  between them.
\<close>

definition path_join :: "string \<Rightarrow> string \<Rightarrow> string" where
  "path_join d name = d @ ''/'' @ name"

text \<open>
  Modelled from the spec: \<^verbatim>\<open>helper.IsUUID\<close> is not among the sources. A well-formed
  UUID is five groups of 8, 4, 4, 4 and 12 lower-case hexadecimal digits, separated by
  hyphens.
\<close>

definition is_hex :: "char \<Rightarrow> bool" where
  "is_hex c = (c \<in> set ''0123456789abcdef'')"

definition IsUUID :: "string \<Rightarrow> bool" where
  "IsUUID s =
     (length s = 36 \<and>
      list_all is_hex (take 8 s) \<and> s ! 8 = CHR ''-'' \<and>
      list_all is_hex (take 4 (drop 9 s)) \<and> s ! 13 = CHR ''-'' \<and>
      list_all is_hex (take 4 (drop 14 s)) \<and> s ! 18 = CHR ''-'' \<and>
      list_all is_hex (take 4 (drop 19 s)) \<and> s ! 23 = CHR ''-'' \<and>
      list_all is_hex (take 12 (drop 24 s)))"

subsection \<open>The keystore directory\<close>

text \<open>
  Modelled from the spec: \<^verbatim>\<open>structs.KeyEncryptionKeyWrapper\<close>, the on-disk record, is not
  among the sources.
\<close>

record key_encryption_key_wrapper =
  kw_Meta :: "root_key_meta option"
  EncryptedDataEncryptionKey :: bytes
  EncryptedRSAKey :: bytes
  KeyEncryptionKey :: bytes
  kw_Provider :: string
  kw_ProviderName :: string

text \<open>
  The bytes of a file are represented by what \<^verbatim>\<open>json.Unmarshal\<close> makes of them: a wrapper
  record, or nothing. \<^verbatim>\<open>json.Marshal\<close> of a wrapper record is the file that unmarshals
  to it, and does not fail.

  The file system is a list of paths with what is found there; the paths are distinct.
  \<open>NoStat\<close> is an entry whose \<^verbatim>\<open>lstat\<close> fails, \<open>NoRead\<close> a file that cannot be read.
  \<open>write_error\<close> is the outcome of \<^verbatim>\<open>os.WriteFile\<close> for a path, \<open>mkdir_error\<close> the one
  of \<^verbatim>\<open>os.MkdirAll\<close> for the keystore path, and \<open>entropy\<close> the bytes that the random
  source is going to deliver.
\<close>

datatype document = NotJSON | WrapperJSON key_encryption_key_wrapper

datatype node = Dir | File document | NoRead error | NoStat error

record world =
  mkdir_error :: "error option"
  files :: "(string \<times> node) list"
  write_error :: "string \<Rightarrow> error option"
  entropy :: bytes

definition os_ReadFile :: "world \<Rightarrow> string \<Rightarrow> error + document" where
  "os_ReadFile w path =
     (case map_of (files w) path of
        None \<Rightarrow> Inl (ErrLib ''no such file or directory'')
      | Some Dir \<Rightarrow> Inl (ErrLib ''is a directory'')
      | Some (File doc) \<Rightarrow> Inr doc
      | Some (NoRead err) \<Rightarrow> Inl err
      | Some (NoStat err) \<Rightarrow> Inl err)"

definition os_WriteFile :: "world \<Rightarrow> string \<Rightarrow> document \<Rightarrow> error option \<times> world" where
  "os_WriteFile w path buf =
     (case write_error w path of
        Some err \<Rightarrow> (Some err, w)
      | None \<Rightarrow>
          (None, w\<lparr>files := (path, File buf) # filter (\<lambda>entry. fst entry \<noteq> path) (files w)\<rparr>))"

text \<open>
  The entries of a directory: the paths one element below it, in lexical order, as
  \<^verbatim>\<open>filepath.Walk\<close> reads them.
\<close>

definition is_child :: "string \<Rightarrow> string \<Rightarrow> bool" where
  "is_child d path =
     (let name = drop (length d + 1) path
      in take (length d + 1) path = d @ ''/'' \<and> name \<noteq> [] \<and> CHR ''/'' \<notin> set name)"

definition read_dir :: "world \<Rightarrow> string \<Rightarrow> (string \<times> node) list" where
  "read_dir w d = sort_key fst (filter (\<lambda>entry. is_child d (fst entry)) (files w))"

subsection \<open>Key-encryption wrappers\<close>

definition lookup_config :: "encrypter \<Rightarrow> string \<Rightarrow> kek_provider_config option" where
  "lookup_config e k = (case providerConfigs e of None \<Rightarrow> None | Some m \<Rightarrow> m k)"

definition newKMSWrapper ::
  "library \<Rightarrow> encrypter \<Rightarrow> string \<Rightarrow> string \<Rightarrow> string \<Rightarrow> bytes \<Rightarrow> error + kms_wrapper"
where
  "newKMSWrapper lib e provider name keyID kek =
     (if provider = ''awskms'' \<or> provider = ''azurekeyvault'' \<or> provider = ''gcpckms''
         \<or> provider = ''transit''
      then
        (case lookup_config e (provider @ name) of
           Some config \<Rightarrow>
             (case kms_SetConfig lib provider (cfg_Config config) of
                Some err \<Rightarrow> Inl err
              | None \<Rightarrow> Inr (ExternalWrapper provider (Some (cfg_Config config))))
         | None \<Rightarrow> Inr (ExternalWrapper provider None))
      else
        (case aead_SetAesGcmKeyBytes lib kek of
           Some err \<Rightarrow> Inl err
         | None \<Rightarrow> Inr (AeadWrapper keyID kek)))"

text \<open>
  \<open>encryptDEK\<close>. The error of \<open>newKMSWrapper\<close> is overwritten unread by the next
  assignment, so a failed construction leaves a nil wrapper whose \<^verbatim>\<open>Encrypt\<close> is then
  called. The function also returns the world, whose entropy it consumes.
\<close>

definition encryptDEK ::
  "library \<Rightarrow> encrypter \<Rightarrow> world \<Rightarrow> root_key \<Rightarrow> kek_provider option
     \<Rightarrow> key_encryption_key_wrapper result \<times> world"
where
  "encryptDEK lib e w rkey provider =
     (case provider of
        None \<Rightarrow> (Panic ''can't encrypt DEK without a provider'', w)
      | Some p \<Rightarrow>
          (case (if Provider p = ''aead'' \<or> Provider p = []
                 then (case crypto_Bytes 32 (entropy w) of
                         Inl err \<Rightarrow> Inl err
                       | Inr kek \<Rightarrow> Inr (kek, w\<lparr>entropy := drop 32 (entropy w)\<rparr>))
                 else Inr ([], w)) of
             Inl err \<Rightarrow> (Err (ErrWrapperKey err), w)
           | Inr (kek, w') \<Rightarrow>
          (case Meta rkey of
             None \<Rightarrow> (Panic ''nil pointer dereference'', w')
           | Some meta \<Rightarrow>
          (case newKMSWrapper lib e (Provider p) (Name p) (KeyID meta) kek of
             Inl err \<Rightarrow> (Panic ''nil pointer dereference'', w')
           | Inr wrapper \<Rightarrow>
          (case kms_Encrypt lib wrapper (Key rkey) of
             Inl err \<Rightarrow> (Err (ErrEncryptRootKey err), w')
           | Inr rootBlob \<Rightarrow>
               (let kekWrapper =
                     \<lparr>kw_Meta = Meta rkey, EncryptedDataEncryptionKey = rootBlob,
                      EncryptedRSAKey = [], KeyEncryptionKey = kek,
                      kw_Provider = Provider p, kw_ProviderName = Name p\<rparr>
                in if length (RSAKey rkey) > 0 then
                     (case kms_Encrypt lib wrapper (RSAKey rkey) of
                        Inl err \<Rightarrow> (Err (ErrEncryptRSAKey err), w')
                      | Inr rsaBlob \<Rightarrow> (Ok (kekWrapper\<lparr>EncryptedRSAKey := rsaBlob\<rparr>), w'))
                   else (Ok kekWrapper, w')))))))"

subsection \<open>Saving and loading keys\<close>

definition key_file_extension :: "kek_provider \<Rightarrow> string" where
  "key_file_extension p =
     (if Provider p \<noteq> ''aead''
      then (''.'' @ Provider p) @ (if Name p \<noteq> [] then ''.'' @ Name p else [])
             @ nomadKeystoreExtension
      else nomadKeystoreExtension)"

text \<open>
  The loop of \<open>saveKeyToStore\<close> over \<^verbatim>\<open>rootKey.Meta.KEKProviders\<close>. A nil provider has
  already panicked in \<open>encryptDEK\<close> when the loop reads its fields.
\<close>

fun save_providers ::
  "library \<Rightarrow> encrypter \<Rightarrow> root_key \<Rightarrow> string \<Rightarrow> kek_provider option list \<Rightarrow> world
     \<Rightarrow> unit result \<times> world"
where
  "save_providers lib e rkey keyID [] w = (Ok (), w)"
| "save_providers lib e rkey keyID (provider # providers) w =
     (case encryptDEK lib e w rkey provider of
        (Err err, w') \<Rightarrow> (Err err, w')
      | (Panic msg, w') \<Rightarrow> (Panic msg, w')
      | (Ok kekWrapper, w') \<Rightarrow>
          (case provider of
             None \<Rightarrow> (Panic ''nil pointer dereference'', w')
           | Some p \<Rightarrow>
               (let buf = WrapperJSON kekWrapper;
                    extension = key_file_extension p;
                    path = path_join (keystorePath e) (keyID @ extension)
                in case os_WriteFile w' path buf of
                     (Some err, w'') \<Rightarrow> (Err err, w'')
                   | (None, w'') \<Rightarrow> save_providers lib e rkey keyID providers w'')))"

definition saveKeyToStore :: "library \<Rightarrow> encrypter \<Rightarrow> world \<Rightarrow> root_key \<Rightarrow> unit result \<times> world" where
  "saveKeyToStore lib e w rkey =
     (case Meta rkey of
        None \<Rightarrow> (Panic ''nil pointer dereference'', w)
      | Some meta \<Rightarrow> save_providers lib e rkey (KeyID meta) (KEKProviders meta) w)"

definition loadKeyFromStore :: "library \<Rightarrow> encrypter \<Rightarrow> world \<Rightarrow> string \<Rightarrow> root_key result" where
  "loadKeyFromStore lib e w path =
     (case os_ReadFile w path of
        Inl err \<Rightarrow> Err err
      | Inr NotJSON \<Rightarrow> Err (ErrLib ''invalid character'')
      | Inr (WrapperJSON kekWrapper) \<Rightarrow>
     (let meta = kw_Meta kekWrapper in
      case meta_Validate lib meta of
        Some err \<Rightarrow> Err err
      | None \<Rightarrow>
     (case meta of
        None \<Rightarrow> Panic ''nil pointer dereference''
      | Some m \<Rightarrow>
     (case newKMSWrapper lib e (kw_Provider kekWrapper) (kw_ProviderName kekWrapper)
             (KeyID m) (KeyEncryptionKey kekWrapper) of
        Inl err \<Rightarrow> Err (ErrWrapperCipher err)
      | Inr wrapper \<Rightarrow>
     (case kms_Decrypt lib wrapper (EncryptedDataEncryptionKey kekWrapper) of
        Inl err \<Rightarrow> Err (ErrDecryptRootKey err)
      | Inr key \<Rightarrow>
          if length (EncryptedRSAKey kekWrapper) > 0 then
            (case kms_Decrypt lib wrapper (EncryptedRSAKey kekWrapper) of
               Inl err \<Rightarrow> Err (ErrDecryptRSAKey err)
             | Inr rsaKey \<Rightarrow> Ok \<lparr>Meta = meta, Key = key, RSAKey = rsaKey\<rparr>)
          else Ok \<lparr>Meta = meta, Key = key, RSAKey = []\<rparr>)))))"

text \<open>
  The function that \<open>loadKeystore\<close> hands to \<^verbatim>\<open>filepath.Walk\<close>, called with a path and
  what is found there. It goes on with the next entry (\<open>Next\<close>, with the keyring as it
  is then), skips a directory (\<open>SkipDir\<close>), or ends the walk with an error or a panic.
\<close>

datatype walk_result = Next encrypter | SkipDir | Fail error | Crash string

definition walkFn :: "library \<Rightarrow> world \<Rightarrow> encrypter \<Rightarrow> string \<Rightarrow> node \<Rightarrow> walk_result" where
  "walkFn lib w e path info =
     (case info of
        NoStat err \<Rightarrow> Fail (ErrReadPath path err)
      | _ \<Rightarrow>
          if path \<noteq> keystorePath e \<and> info = Dir then SkipDir
          else if \<not> has_suffix path nomadKeystoreExtension then Next e
          else
            (let id = trim_suffix (path_base path) nomadKeystoreExtension in
             if \<not> IsUUID id then Next e
             else
               (case loadKeyFromStore lib e w path of
                  Err err \<Rightarrow> Fail (ErrLoadKeyFile path err)
                | Panic msg \<Rightarrow> Crash msg
                | Ok key \<Rightarrow>
                    (case Meta key of
                       None \<Rightarrow> Crash ''nil pointer dereference''
                     | Some m \<Rightarrow>
                         if KeyID m \<noteq> id then Fail (ErrKeyIDMismatch (KeyID m) path)
                         else
                           (case addCipher lib e (Some key) of
                              Err err \<Rightarrow> Fail (ErrAddKeyFile path err)
                            | Panic msg \<Rightarrow> Crash msg
                            | Ok e' \<Rightarrow> Next e')))))"

text \<open>
  \<^verbatim>\<open>filepath.Walk\<close>: the function is called on the root, then on each entry of the
  directory in lexical order; a skipped directory is not descended into, and any other
  error ends the walk and is returned.
\<close>

fun walk_entries :: "library \<Rightarrow> world \<Rightarrow> (string \<times> node) list \<Rightarrow> encrypter \<Rightarrow> encrypter result" where
  "walk_entries lib w [] e = Ok e"
| "walk_entries lib w ((path, info) # entries) e =
     (case walkFn lib w e path info of
        Next e' \<Rightarrow> walk_entries lib w entries e'
      | SkipDir \<Rightarrow> walk_entries lib w entries e
      | Fail err \<Rightarrow> Err err
      | Crash msg \<Rightarrow> Panic msg)"

definition filepath_Walk :: "library \<Rightarrow> world \<Rightarrow> encrypter \<Rightarrow> encrypter result" where
  "filepath_Walk lib w e =
     (case walkFn lib w e (keystorePath e) Dir of
        Next e' \<Rightarrow> walk_entries lib w (read_dir w (keystorePath e)) e'
      | SkipDir \<Rightarrow> Ok e
      | Fail err \<Rightarrow> Err err
      | Crash msg \<Rightarrow> Panic msg)"

definition loadKeystore :: "library \<Rightarrow> world \<Rightarrow> encrypter \<Rightarrow> encrypter result" where
  "loadKeystore lib w e =
     (case mkdir_error w of
        Some err \<Rightarrow> Err err
      | None \<Rightarrow> filepath_Walk lib w e)"

subsection \<open>NewEncrypter and AddKey\<close>

text \<open>
  The loop of \<open>NewEncrypter\<close> over \<^verbatim>\<open>srv.config.KEKProviderConfigs\<close>: each round assigns
  to an entry of the map \<open>providerConfigs\<close>.
\<close>

fun store_provider_configs :: "kek_provider_config option list \<Rightarrow> encrypter \<Rightarrow> encrypter result" where
  "store_provider_configs [] e = Ok e"
| "store_provider_configs (None # providers) e = Panic ''nil pointer dereference''"
| "store_provider_configs (Some provider # providers) e =
     (case providerConfigs e of
        None \<Rightarrow> Panic ''assignment to entry in nil map''
      | Some m \<Rightarrow>
          store_provider_configs providers
            (e\<lparr>providerConfigs := Some (m(cfg_Provider provider @ cfg_Name provider \<mapsto> provider))\<rparr>))"

definition NewEncrypter :: "library \<Rightarrow> world \<Rightarrow> server \<Rightarrow> string \<Rightarrow> encrypter result" where
  "NewEncrypter lib w srv path =
     (let encrypter = \<lparr>providerConfigs = None, keystorePath = path,
                       issuer = OIDCIssuer srv, keyring = Map.empty\<rparr>
      in case store_provider_configs (KEKProviderConfigs srv) encrypter of
           Err err \<Rightarrow> Err err
         | Panic msg \<Rightarrow> Panic msg
         | Ok encrypter' \<Rightarrow>
             (case loadKeystore lib w encrypter' of
                Err err \<Rightarrow> Err err
              | Panic msg \<Rightarrow> Panic msg
              | Ok encrypter'' \<Rightarrow> Ok encrypter''))"

text \<open>
  \<open>AddKey\<close> returns its error together with the encrypter and the world as it leaves
  them.
\<close>

definition AddKey ::
  "library \<Rightarrow> encrypter \<Rightarrow> world \<Rightarrow> root_key option \<Rightarrow> unit result \<times> encrypter \<times> world"
where
  "AddKey lib e w rkey =
     (case addCipher lib e rkey of
        Err err \<Rightarrow> (Err err, e, w)
      | Panic msg \<Rightarrow> (Panic msg, e, w)
      | Ok e' \<Rightarrow>
          (case rkey of
             None \<Rightarrow> (Panic ''nil pointer dereference'', e', w)
           | Some rk \<Rightarrow>
               (case saveKeyToStore lib e' w rk of
                  (Err err, w') \<Rightarrow> (Err err, e', w')
                | (Panic msg, w') \<Rightarrow> (Panic msg, e', w')
                | (Ok u, w') \<Rightarrow> (Ok (), e', w'))))"

subsection \<open>The invariant of the keyring\<close>

text \<open>
  Every keyset of the keyring is filed under the key ID of its own metadata. The
  properties of \<open>Encrypt\<close> and \<open>SignClaims\<close> assume this of the active keyset;
  \<open>addCipher\<close>, the only function that stores into the keyring, maintains it.
\<close>

definition keyring_wf :: "encrypter \<Rightarrow> bool" where
  "keyring_wf e =
     (\<forall>k ks. keyring e k = Some ks \<longrightarrow> (\<exists>m. Meta (rootKey ks) = Some m \<and> KeyID m = k))"

subsection \<open>Contracts of the cipher\<close>

text \<open>
  What the properties below assume of a cipher. \<open>aes_gcm_contract\<close>: the nonce is 12
  bytes, sealing adds a tag of 16 bytes, and opening what was sealed, with the same nonce
  and additional data, gives the plaintext back. \<open>rejects_other_data\<close>: what \<open>c\<close> sealed
  with the additional data \<open>a\<close> does not authenticate under \<open>c'\<close> with the additional
  data \<open>a'\<close>.
\<close>

definition aes_gcm_contract :: "aead \<Rightarrow> bool" where
  "aes_gcm_contract c =
     (NonceSize c = 12 \<and> Overhead c = 16 \<and>
      (\<forall>nonce plaintext additional.
          length (seal c nonce plaintext additional) = length plaintext + Overhead c \<and>
          unseal c nonce (seal c nonce plaintext additional) additional = Some plaintext))"


subsection \<open>Contracts of the token library\<close>




subsection \<open>Entries of the keystore directory\<close>

text \<open>
  Two kinds of entries that the properties of the load speak about. \<open>skipped_entry\<close>: a
  directory, or an entry whose \<^verbatim>\<open>lstat\<close> works and whose path does not end in the keystore
  extension or has a file name prefix that, up to its first dot, is not a well-formed
  UUID. \<open>mismatched_key_file\<close>: a path that ends in the extension, with a well-formed
  UUID as prefix, and a wrapper record whose metadata carries another key ID.
\<close>

definition skipped_entry :: "string \<Rightarrow> node \<Rightarrow> bool" where
  "skipped_entry path info =
     (case info of
        NoStat err \<Rightarrow> False
      | Dir \<Rightarrow> True
      | _ \<Rightarrow>
          \<not> has_suffix path nomadKeystoreExtension
          \<or> \<not> IsUUID (takeWhile (\<lambda>c. c \<noteq> CHR ''.'')
                         (trim_suffix (path_base path) nomadKeystoreExtension)))"

definition mismatched_key_file :: "string \<Rightarrow> key_encryption_key_wrapper \<Rightarrow> bool" where
  "mismatched_key_file path kekWrapper =
     (has_suffix path nomadKeystoreExtension
      \<and> IsUUID (trim_suffix (path_base path) nomadKeystoreExtension)
      \<and> (case kw_Meta kekWrapper of
            None \<Rightarrow> False
          | Some m \<Rightarrow> KeyID m \<noteq> trim_suffix (path_base path) nomadKeystoreExtension))"

subsection \<open>A stand-in library and sample data\<close>

text \<open>
  A small executable stand-in for the libraries, used to run the model on sample data.
  Its cipher appends a 16-byte tag computed from the additional data and the key (it
  does not hide the plaintext); its tokens are the key ID, the algorithm, the issuer and
  the subject, separated by dots.
\<close>

definition demo_tag :: "bytes \<Rightarrow> bytes \<Rightarrow> bytes" where
  "demo_tag key additional = take 16 (additional @ key @ replicate 16 (CHR ''#''))"

definition demo_aead :: "bytes \<Rightarrow> aead" where
  "demo_aead key =
     \<lparr>NonceSize = 12, Overhead = 16,
      seal = (\<lambda>nonce plaintext additional. plaintext @ demo_tag key additional),
      unseal = (\<lambda>nonce ciphertext additional.
                  if 16 \<le> length ciphertext
                     \<and> drop (length ciphertext - 16) ciphertext = demo_tag key additional
                  then Some (take (length ciphertext - 16) ciphertext)
                  else None)\<rparr>"

fun split_dots :: "string \<Rightarrow> string list" where
  "split_dots [] = [[]]"
| "split_dots (c # cs) =
     (if c = CHR ''.'' then [] # split_dots cs
      else (case split_dots cs of
              [] \<Rightarrow> [[c]]
            | part # parts \<Rightarrow> (c # part) # parts))"

definition demo_serialize :: "signer \<Rightarrow> identity_claims \<Rightarrow> string" where
  "demo_serialize sig claims =
     (case sig of
        Signer alg key opts \<Rightarrow>
          (case map_of opts ''kid'' of None \<Rightarrow> [] | Some kid \<Rightarrow> kid)
            @ ''.'' @ alg @ ''.'' @ Issuer claims @ ''.'' @ Subject claims)"

definition demo_parse :: "string \<Rightarrow> error + json_web_token" where
  "demo_parse raw =
     (case split_dots raw of
        [kid, alg, iss, sub] \<Rightarrow>
          Inr \<lparr>Headers = [\<lparr>hdr_KeyID = kid, hdr_Algorithm = alg\<rparr>], compact = raw\<rparr>
      | _ \<Rightarrow> Inl (ErrLib ''compact JWS format must have three parts''))"

definition demo_claims_of :: "json_web_token \<Rightarrow> public_key \<Rightarrow> error + identity_claims" where
  "demo_claims_of token key =
     (case split_dots (compact token) of
        [kid, alg, iss, sub] \<Rightarrow>
          (case key of
             Ed25519PublicKey pub \<Rightarrow>
               if alg = ''EdDSA'' then
                 Inr \<lparr>Issuer = iss, Subject = sub, Expiry = None, NotBefore = None, Other = []\<rparr>
               else Inl (ErrLib ''error in cryptographic primitive'')
           | RSAPublic pub \<Rightarrow>
               if alg = ''RS256'' then
                 Inr \<lparr>Issuer = iss, Subject = sub, Expiry = None, NotBefore = None, Other = []\<rparr>
               else Inl (ErrLib ''error in cryptographic primitive''))
      | _ \<Rightarrow> Inl (ErrLib ''compact JWS format must have three parts''))"

definition demo_lib :: library where
  "demo_lib =
     \<lparr>aes_NewCipher = (\<lambda>key. if length key \<in> {16, 24, 32} then Inr (AESBlock key)
                               else Inl (ErrLib ''invalid key size'')),
      cipher_NewGCM = (\<lambda>block. case block of AESBlock key \<Rightarrow> Inr (demo_aead key)),
      ed25519_NewKeyFromSeed = (\<lambda>seed. seed @ rev seed),
      ed25519_Public = (\<lambda>priv. drop 32 priv),
      x509_ParsePKCS1PrivateKey = (\<lambda>der. if take 3 der = ''rsa'' then Inr (RSAPrivateKey der)
                                           else Inl (ErrLib ''x509: failed to parse private key'')),
      rsa_PublicKey = (\<lambda>priv. case priv of RSAPrivateKey der \<Rightarrow> RSAPublicKey (rev der)),
      x509_MarshalPKCS1PublicKey = (\<lambda>pub. case pub of RSAPublicKey der \<Rightarrow> der),
      x509_ParsePKCS1PublicKey = (\<lambda>der. Inr (RSAPublicKey der)),
      jose_NewSigner = (\<lambda>alg key opts. Inr (Signer alg key opts)),
      jwt_CompactSerialize = (\<lambda>sig claims. Inr (demo_serialize sig claims)),
      jwt_ParseSigned = demo_parse,
      jwt_Claims = demo_claims_of,
      claims_Validate = (\<lambda>claims. None),
      meta_Validate = (\<lambda>meta. case meta of
                                  None \<Rightarrow> Some (ErrLib ''root key metadata is required'')
                                | Some m \<Rightarrow> if IsUUID (KeyID m) then None
                                            else Some (ErrLib ''root key UUID is required'')),
      kms_SetConfig = (\<lambda>provider config. None),
      aead_SetAesGcmKeyBytes = (\<lambda>kek. if length kek \<in> {16, 24, 32} then None
                                        else Some (ErrLib ''invalid key size'')),
      kms_Encrypt = (\<lambda>wrapper plaintext.
                       case wrapper of
                         AeadWrapper keyID kek \<Rightarrow>
                           Inr (seal (demo_aead kek) [] plaintext keyID)
                       | ExternalWrapper provider config \<Rightarrow> Inr (provider @ '':'' @ plaintext)),
      kms_Decrypt = (\<lambda>wrapper ciphertext.
                       case wrapper of
                         AeadWrapper keyID kek \<Rightarrow>
                           (case unseal (demo_aead kek) [] ciphertext keyID of
                              None \<Rightarrow> Inl (ErrLib ''message authentication failed'')
                            | Some plaintext \<Rightarrow> Inr plaintext)
                       | ExternalWrapper provider config \<Rightarrow>
                           if take (length provider + 1) ciphertext = provider @ '':''
                           then Inr (drop (length provider + 1) ciphertext)
                           else Inl (ErrLib ''kms: decryption failed''))\<rparr>"

definition demo_meta :: "string \<Rightarrow> kek_provider option list \<Rightarrow> root_key_meta" where
  "demo_meta keyID providers =
     \<lparr>KeyID = keyID, Algorithm = EncryptionAlgorithmAES256GCM, CreateTime = 0,
      State = ''active'', KEKProviders = providers, ModifyIndex = 1\<rparr>"

definition demo_dek :: "char \<Rightarrow> bytes" where
  "demo_dek c = replicate 32 c"

definition demo_root_key :: "string \<Rightarrow> char \<Rightarrow> root_key" where
  "demo_root_key keyID c =
     \<lparr>Meta = Some (demo_meta keyID [Some \<lparr>Provider = ''aead'', Name = []\<rparr>]),
      Key = demo_dek c, RSAKey = []\<rparr>"

definition demo_keyset :: "string \<Rightarrow> char \<Rightarrow> keyset" where
  "demo_keyset keyID c =
     \<lparr>rootKey = demo_root_key keyID c, cipher = demo_aead (demo_dek c),
      eddsaPrivateKey = ed25519_NewKeyFromSeed demo_lib (demo_dek c),
      rsaPrivateKey = None, rsaPKCS1PublicKey = []\<rparr>"

text \<open>The first scenario of the spec: a keyring with the keys \<open>K1\<close> and \<open>K2\<close>, \<open>K1\<close> active.\<close>

definition demo_encrypter :: encrypter where
  "demo_encrypter =
     \<lparr>providerConfigs = Some Map.empty, keystorePath = ''/var/nomad/keystore'',
      issuer = ''https://nomad:4646'',
      keyring = [''K1'' \<mapsto> demo_keyset ''K1'' (CHR ''a''), ''K2'' \<mapsto> demo_keyset ''K2'' (CHR ''b'')]\<rparr>"

definition demo_server :: "string \<Rightarrow> server" where
  "demo_server keyID =
     \<lparr>GetActiveRootKeyMeta = Inr (Some (demo_meta keyID [])), OIDCIssuer = ''https://nomad:4646'',
      KEKProviderConfigs = []\<rparr>"

definition demo_entropy :: bytes where
  "demo_entropy = ''0123456789abcdefghijklmnopqrstuvwxyz0123456789''"

text \<open>
  A node that has the metadata of the active key \<open>K1\<close> but not yet its material, a world
  whose keystore directory cannot be written, and a configuration with one provider.
\<close>

definition demo_empty_encrypter :: encrypter where
  "demo_empty_encrypter = demo_encrypter\<lparr>keyring := Map.empty\<rparr>"

definition demo_full_disk :: world where
  "demo_full_disk =
     \<lparr>mkdir_error = None, files = [],
      write_error = (\<lambda>path. Some (ErrLib ''no space left on device'')),
      entropy = demo_entropy\<rparr>"

definition demo_configured_server :: server where
  "demo_configured_server =
     \<lparr>GetActiveRootKeyMeta = Inr None, OIDCIssuer = [],
      KEKProviderConfigs =
        [Some \<lparr>cfg_Provider = ''awskms'', cfg_Name = ''primary'',
               cfg_Config = [(''region'', ''us-east-1'')]\<rparr>]\<rparr>"

definition demo_uuid :: string where
  "demo_uuid = ''8a3f2c1e-0b4d-4e6f-9a7b-5c1d2e3f4a5b''"




text \<open>
  A keystore directory with given entries, and the key file of \<open>demo_uuid\<close> as the
  stand-in library wraps it with the built-in AEAD, with a given provider name in the
  record.
\<close>

definition demo_disk :: "(string \<times> node) list \<Rightarrow> world" where
  "demo_disk entries =
     \<lparr>mkdir_error = None, files = entries, write_error = (\<lambda>path. None),
      entropy = demo_entropy\<rparr>"

definition demo_kek :: bytes where
  "demo_kek = take 32 demo_entropy"

definition demo_wrapper :: "string \<Rightarrow> string \<Rightarrow> key_encryption_key_wrapper" where
  "demo_wrapper keyID provider =
     \<lparr>kw_Meta = Some (demo_meta keyID [Some \<lparr>Provider = ''aead'', Name = []\<rparr>]),
      EncryptedDataEncryptionKey = demo_dek (CHR ''a'') @ demo_tag demo_kek keyID,
      EncryptedRSAKey = [], KeyEncryptionKey = demo_kek,
      kw_Provider = provider, kw_ProviderName = []\<rparr>"

definition demo_key_path :: string where
  "demo_key_path = path_join ''/var/nomad/keystore'' (demo_uuid @ nomadKeystoreExtension)"

text \<open>
  A second key ID, and the key of \<open>demo_uuid\<close> with an external provider as its only
  wrapping provider.
\<close>

definition demo_other_uuid :: string where
  "demo_other_uuid = ''00000000-0000-4000-8000-000000000000''"



section \<open>Properties\<close>

lemma length_demo_tag: "length (demo_tag key additional) = 16"
  unfolding demo_tag_def by (simp del: take_append)

lemma demo_aead_contract: "aes_gcm_contract (demo_aead key)"
  by (simp add: aes_gcm_contract_def demo_aead_def length_demo_tag)

subsection \<open>Encrypt and Decrypt\<close>

lemma Encrypt_active:
  assumes "activeKeySet srv e = Ok ks"
    and "Meta (rootKey ks) = Some m"
    and "NonceSize (cipher ks) \<le> length rand"
  shows "Encrypt srv e rand c =
           Ok (take (NonceSize (cipher ks)) rand
                 @ seal (cipher ks) (take (NonceSize (cipher ks)) rand) c (KeyID m),
               KeyID m)"
  using assms by (simp add: Encrypt_def crypto_Bytes_def Seal_def Let_def)

lemma Decrypt_framed:
  assumes "keyring e k = Some ks"
    and "length nonce = NonceSize (cipher ks)"
  shows "Decrypt e \<lparr>visible = nonce @ body, spare = sp\<rparr> k =
           (case unseal (cipher ks) nonce body k of
              None \<Rightarrow> Err ErrAuth
            | Some plaintext \<Rightarrow> Ok plaintext)"
  using assms
  by (simp add: Decrypt_def keysetByIDLocked_def slice_upto_def slice_from_def Open_def Let_def
        split: option.split)

text \<open>
  C1. When the state store names the active key \<open>k\<close> and the keyring holds a keyset for
  \<open>k\<close> whose cipher meets the contract of AES-256-GCM, and the random source delivers
  the 12 bytes of the nonce, then \<open>Encrypt c\<close> returns the key ID \<open>k\<close> and the nonce
  followed by the sealed cleartext, 12 + length c + 16 bytes in all, and \<open>Decrypt\<close> of
  that ciphertext (in a buffer of any capacity) with the key ID \<open>k\<close> returns \<open>c\<close>.
\<close>

theorem C1_encrypt_decrypt_round_trip:
  assumes "GetActiveRootKeyMeta srv = Inr (Some active)"
    and "KeyID active = k"
    and "keyring e k = Some ks"
    and "Meta (rootKey ks) = Some m"
    and "KeyID m = k"
    and "aes_gcm_contract (cipher ks)"
    and "12 \<le> length rand"
  shows "\<exists>x. Encrypt srv e rand c = Ok (x, k)
           \<and> x = take 12 rand @ seal (cipher ks) (take 12 rand) c k
           \<and> length x = 12 + length c + 16
           \<and> Decrypt e \<lparr>visible = x, spare = sp\<rparr> k = Ok c"
proof -
  have ns: "NonceSize (cipher ks) = 12" and ov: "Overhead (cipher ks) = 16"
    using assms(6) by (simp_all add: aes_gcm_contract_def)
  have act: "activeKeySet srv e = Ok ks"
    using assms(1,2,3) by (simp add: activeKeySet_def keysetByIDLocked_def)
  let ?nonce = "take 12 rand"
  let ?x = "?nonce @ seal (cipher ks) ?nonce c k"
  have enc: "Encrypt srv e rand c = Ok (?x, k)"
    using Encrypt_active [OF act assms(4), of rand c] assms(5,7) ns by simp
  have len: "length ?x = 12 + length c + 16"
    using assms(6,7) ov by (simp add: aes_gcm_contract_def)
  have "unseal (cipher ks) ?nonce (seal (cipher ks) ?nonce c k) k = Some c"
    using assms(6) by (simp add: aes_gcm_contract_def)
  then have dec: "Decrypt e \<lparr>visible = ?x, spare = sp\<rparr> k = Ok c"
    using Decrypt_framed [OF assms(3), of ?nonce] assms(7) ns by simp
  show ?thesis using enc len dec by blast
qed

theorem C1_encrypt_decrypt_round_trip_witness:
  "\<exists>x. Encrypt (demo_server ''K1'') demo_encrypter demo_entropy ''hello'' = Ok (x, ''K1'')
     \<and> x = take 12 demo_entropy
             @ seal (cipher (demo_keyset ''K1'' (CHR ''a''))) (take 12 demo_entropy) ''hello'' ''K1''
     \<and> length x = 33
     \<and> Decrypt demo_encrypter \<lparr>visible = x, spare = []\<rparr> ''K1'' = Ok ''hello''"
proof -
  have h1: "GetActiveRootKeyMeta (demo_server ''K1'') = Inr (Some (demo_meta ''K1'' []))"
    by (simp add: demo_server_def)
  have h2: "KeyID (demo_meta ''K1'' []) = ''K1''"
    by (simp add: demo_meta_def)
  have h3: "keyring demo_encrypter ''K1'' = Some (demo_keyset ''K1'' (CHR ''a''))"
    by (simp add: demo_encrypter_def)
  have h4: "Meta (rootKey (demo_keyset ''K1'' (CHR ''a'')))
              = Some (demo_meta ''K1'' [Some \<lparr>Provider = ''aead'', Name = []\<rparr>])"
    by (simp add: demo_keyset_def demo_root_key_def)
  have h5: "KeyID (demo_meta ''K1'' [Some \<lparr>Provider = ''aead'', Name = []\<rparr>]) = ''K1''"
    by (simp add: demo_meta_def)
  have h6: "aes_gcm_contract (cipher (demo_keyset ''K1'' (CHR ''a'')))"
    by (simp add: demo_keyset_def demo_aead_contract)
  have h7: "12 \<le> length demo_entropy"
    by (simp add: demo_entropy_def)
  show ?thesis
    using C1_encrypt_decrypt_round_trip [OF h1 h2 h3 h4 h5 h6 h7, of "''hello''" "[]"]
    by auto
qed



text \<open>
  C4. For a buffer shorter than the nonce size of the keyset's cipher and a key ID of the
  keyring, \<open>Decrypt\<close> does not return an error: one of the two slice expressions is out
  of range (the first when the capacity is too small as well, the second otherwise) and
  the function panics.
\<close>

theorem C4_decrypt_short_buffer_panics:
  assumes "keyring e keyID = Some ks"
    and "length (visible buf) < NonceSize (cipher ks)"
  shows "Decrypt e buf keyID = Panic ''slice bounds out of range''"
  using assms
  by (simp add: Decrypt_def keysetByIDLocked_def slice_upto_def slice_from_def Let_def)

theorem C4_decrypt_short_buffer_panics_witness:
  "Decrypt demo_encrypter \<lparr>visible = ''short'', spare = []\<rparr> ''K1''
     = Panic ''slice bounds out of range''
   \<and> Decrypt demo_encrypter \<lparr>visible = ''short'', spare = ''0123456789''\<rparr> ''K1''
     = Panic ''slice bounds out of range''"
proof -
  have h1: "keyring demo_encrypter ''K1'' = Some (demo_keyset ''K1'' (CHR ''a''))"
    by (simp add: demo_encrypter_def)
  have h2: "length (visible \<lparr>visible = ''short'', spare = []\<rparr>)
              < NonceSize (cipher (demo_keyset ''K1'' (CHR ''a'')))"
    by (simp add: demo_keyset_def demo_aead_def)
  have h3: "length (visible \<lparr>visible = ''short'', spare = ''0123456789''\<rparr>)
              < NonceSize (cipher (demo_keyset ''K1'' (CHR ''a'')))"
    by (simp add: demo_keyset_def demo_aead_def)
  show ?thesis
    using C4_decrypt_short_buffer_panics [OF h1 h2] C4_decrypt_short_buffer_panics [OF h1 h3]
    by simp
qed


subsection \<open>SignClaims while the active keyset is missing\<close>

lemma activeKeySet_no_panic: "activeKeySet srv e \<noteq> Panic msg"
  by (simp add: activeKeySet_def keysetByIDLocked_def split: sum.split option.split)

lemma retry_loop_snoc:
  "retry_loop (polls @ [(srv, e)]) st =
     (case retry_loop polls st of
        Ok st' \<Rightarrow> retry_loop [(srv, e)] st'
      | Err err \<Rightarrow> Err err
      | Panic msg \<Rightarrow> Panic msg)"
  by (induction polls st rule: retry_loop.induct) (auto split: result.split)

lemma retry_loop_returns: "\<exists>st'. retry_loop polls st = Ok st'"
proof (induction polls st rule: retry_loop.induct)
  case (1 st)
  then show ?case by simp
next
  case (2 srv e polls st)
  then show ?case
    using activeKeySet_no_panic [of srv e]
    by (cases "activeKeySet srv e") auto
qed

lemma retry_loop_last:
  assumes "polls \<noteq> []"
  shows "retry_loop polls st =
           (case activeKeySet (fst (last polls)) (snd (last polls)) of
              Ok ks \<Rightarrow> Ok (Some ks, None)
            | Err err \<Rightarrow> Ok (None, Some err)
            | Panic msg \<Rightarrow> Panic msg)"
proof -
  from assms obtain init srv e where polls: "polls = init @ [(srv, e)]"
    by (metis append_butlast_last_id surj_pair)
  obtain st' where "retry_loop init st = Ok st'"
    using retry_loop_returns by blast
  then show ?thesis
    by (simp add: polls retry_loop_snoc split: result.split)
qed

text \<open>
  C5. When the first request for the active keyset fails, \<open>SignClaims\<close> never signs:
  the loop is left only when the context is done, and the result is the error variable
  as the last poll left it. Without a poll it is the first error; when the last poll
  failed it is that poll's error; when the last poll found the keyset it is a nil error,
  with an empty token and an empty key ID. A keyset found by an earlier poll is
  not used.
\<close>

theorem C5_sign_claims_retry_never_signs:
  assumes "activeKeySet srv e = Err err"
  shows "SignClaims lib srv e polls claims =
           (if polls = [] then Err err
            else case activeKeySet (fst (last polls)) (snd (last polls)) of
                   Ok ks \<Rightarrow> Ok ([], [])
                 | Err err' \<Rightarrow> Err err'
                 | Panic msg \<Rightarrow> Panic msg)"
proof (cases "polls = []")
  case True
  then show ?thesis using assms by (simp add: SignClaims_def)
next
  case False
  then show ?thesis
    using assms retry_loop_last [OF False, of "(None, Some err)"]
    by (simp add: SignClaims_def split: result.split)
qed

theorem C5_sign_claims_retry_never_signs_witness:
  "SignClaims demo_lib (demo_server ''K1'') demo_empty_encrypter
     [(demo_server ''K1'', demo_empty_encrypter), (demo_server ''K1'', demo_encrypter),
      (demo_server ''K1'', demo_encrypter)]
     \<lparr>Issuer = [], Subject = ''s1'', Expiry = None, NotBefore = None, Other = []\<rparr>
   = Ok ([], [])"
proof -
  have h: "activeKeySet (demo_server ''K1'') demo_empty_encrypter = Err (ErrNoSuchKey ''K1'')"
    by (simp add: activeKeySet_def keysetByIDLocked_def demo_server_def demo_meta_def
        demo_empty_encrypter_def)
  have a: "activeKeySet (demo_server ''K1'') demo_encrypter = Ok (demo_keyset ''K1'' (CHR ''a''))"
    by (simp add: activeKeySet_def keysetByIDLocked_def demo_server_def demo_meta_def
        demo_encrypter_def)
  show ?thesis
    using C5_sign_claims_retry_never_signs [OF h, of demo_lib
        "[(demo_server ''K1'', demo_empty_encrypter), (demo_server ''K1'', demo_encrypter),
          (demo_server ''K1'', demo_encrypter)]"] a
    by simp
qed

subsection \<open>NewEncrypter\<close>

text \<open>
  C10. \<open>NewEncrypter\<close> builds the encrypter without the map \<open>providerConfigs\<close>, so the
  first round of the loop over a non-empty list of provider configurations panics: on
  the assignment to an entry of the nil map (or, for a nil element, on reading its
  fields). Neither an encrypter nor an error is returned.
\<close>

theorem C10_new_encrypter_panics_on_provider_configs:
  assumes "KEKProviderConfigs srv = provider # providers"
  shows "NewEncrypter lib w srv path =
           Panic (case provider of
                    None \<Rightarrow> ''nil pointer dereference''
                  | Some p \<Rightarrow> ''assignment to entry in nil map'')"
  using assms by (cases provider) (simp_all add: NewEncrypter_def)

theorem C10_new_encrypter_panics_on_provider_configs_witness:
  "NewEncrypter demo_lib demo_full_disk demo_configured_server ''/var/nomad/keystore''
     = Panic ''assignment to entry in nil map''"
proof -
  have h: "KEKProviderConfigs demo_configured_server =
             Some \<lparr>cfg_Provider = ''awskms'', cfg_Name = ''primary'',
                   cfg_Config = [(''region'', ''us-east-1'')]\<rparr> # []"
    by (simp add: demo_configured_server_def)
  show ?thesis
    using C10_new_encrypter_panics_on_provider_configs [OF h] by simp
qed


subsection \<open>AddKey when the save fails\<close>

lemma addCipher_installs:
  assumes "addCipher lib e (Some r) = Ok e'"
  shows "\<exists>m ks. Meta r = Some m \<and> keyring e' (KeyID m) = Some ks \<and> rootKey ks = r"
  using assms
  by (auto simp: addCipher_def Let_def split: option.splits if_splits sum.splits)

text \<open>
  C9. When \<open>addCipher\<close> has installed the key \<open>r\<close> and the save to the keystore then
  fails, \<open>AddKey\<close> returns the error of the save and leaves the encrypter as
  \<open>addCipher\<close> made it: the keyring holds a keyset for the key ID of \<open>r\<close> with \<open>r\<close> as
  its root key, \<open>GetKey\<close> returns the material of \<open>r\<close>, and \<open>Decrypt\<close> with that key ID
  finds the keyset and answers as its cipher does (so it returns the cleartext of what
  was sealed with this cipher and key ID, when the cipher opens what it sealed).
\<close>

theorem C9_add_key_keeps_key_when_save_fails:
  assumes "addCipher lib e (Some r) = Ok e'"
    and "saveKeyToStore lib e' w r = (Err err, w')"
  shows "\<exists>m ks. Meta r = Some m
           \<and> AddKey lib e w (Some r) = (Err err, e', w')
           \<and> keyring e' (KeyID m) = Some ks \<and> rootKey ks = r
           \<and> GetKey e' (KeyID m) = Ok (Key r, RSAKey r)
           \<and> (\<forall>nonce body sp. length nonce = NonceSize (cipher ks) \<longrightarrow>
                 Decrypt e' \<lparr>visible = nonce @ body, spare = sp\<rparr> (KeyID m) =
                   (case unseal (cipher ks) nonce body (KeyID m) of
                      None \<Rightarrow> Err ErrAuth
                    | Some plaintext \<Rightarrow> Ok plaintext))
           \<and> (\<forall>nonce c sp. length nonce = NonceSize (cipher ks) \<longrightarrow>
                 unseal (cipher ks) nonce (seal (cipher ks) nonce c (KeyID m)) (KeyID m) = Some c \<longrightarrow>
                 Decrypt e' \<lparr>visible = nonce @ seal (cipher ks) nonce c (KeyID m), spare = sp\<rparr>
                   (KeyID m) = Ok c)"
proof -
  from addCipher_installs [OF assms(1)] obtain m ks where
    m: "Meta r = Some m" and ring: "keyring e' (KeyID m) = Some ks" and ks: "rootKey ks = r"
    by blast
  have add: "AddKey lib e w (Some r) = (Err err, e', w')"
    using assms by (simp add: AddKey_def)
  have get: "GetKey e' (KeyID m) = Ok (Key r, RSAKey r)"
    using ring ks by (simp add: GetKey_def keysetByIDLocked_def)
  have dec: "Decrypt e' \<lparr>visible = nonce @ body, spare = sp\<rparr> (KeyID m) =
               (case unseal (cipher ks) nonce body (KeyID m) of
                  None \<Rightarrow> Err ErrAuth
                | Some plaintext \<Rightarrow> Ok plaintext)"
    if "length nonce = NonceSize (cipher ks)" for nonce body sp
    using Decrypt_framed [OF ring that] .
  have rt: "Decrypt e' \<lparr>visible = nonce @ seal (cipher ks) nonce c (KeyID m), spare = sp\<rparr>
              (KeyID m) = Ok c"
    if "length nonce = NonceSize (cipher ks)"
      and "unseal (cipher ks) nonce (seal (cipher ks) nonce c (KeyID m)) (KeyID m) = Some c"
    for nonce c sp
    using dec [OF that(1), of "seal (cipher ks) nonce c (KeyID m)" sp] that(2) by simp
  show ?thesis
    using m add ring ks get dec rt by blast
qed


theorem C9_add_key_keeps_key_when_save_fails_witness:
  "AddKey demo_lib demo_empty_encrypter demo_full_disk (Some (demo_root_key demo_uuid (CHR ''a'')))
     = (Err (ErrLib ''no space left on device''),
        demo_empty_encrypter\<lparr>keyring := [demo_uuid \<mapsto> demo_keyset demo_uuid (CHR ''a'')]\<rparr>,
        demo_full_disk\<lparr>entropy := drop 32 demo_entropy\<rparr>)
   \<and> GetKey (demo_empty_encrypter\<lparr>keyring := [demo_uuid \<mapsto> demo_keyset demo_uuid (CHR ''a'')]\<rparr>)
       demo_uuid = Ok (demo_dek (CHR ''a''), [])"
proof -
  let ?r = "demo_root_key demo_uuid (CHR ''a'')"
  let ?e' = "demo_empty_encrypter\<lparr>keyring := [demo_uuid \<mapsto> demo_keyset demo_uuid (CHR ''a'')]\<rparr>"
  let ?w' = "demo_full_disk\<lparr>entropy := drop 32 demo_entropy\<rparr>"
  have h1: "addCipher demo_lib demo_empty_encrypter (Some ?r) = Ok ?e'"
    by (simp add: addCipher_def demo_lib_def demo_root_key_def demo_meta_def demo_dek_def
        demo_keyset_def demo_empty_encrypter_def demo_encrypter_def)
  have kek: "crypto_Bytes 32 demo_entropy = Inr (take 32 demo_entropy)"
    by (simp add: crypto_Bytes_def demo_entropy_def)
  have len: "length demo_entropy = 46"
    by (simp add: demo_entropy_def)
  have h2: "saveKeyToStore demo_lib ?e' demo_full_disk ?r
              = (Err (ErrLib ''no space left on device''), ?w')"
    by (simp add: saveKeyToStore_def encryptDEK_def newKMSWrapper_def os_WriteFile_def kek len
        demo_root_key_def demo_meta_def demo_full_disk_def demo_lib_def)
  from C9_add_key_keeps_key_when_save_fails [OF h1 h2] obtain m where
    "Meta ?r = Some m"
    and "AddKey demo_lib demo_empty_encrypter demo_full_disk (Some ?r)
           = (Err (ErrLib ''no space left on device''), ?e', ?w')"
    and "GetKey ?e' (KeyID m) = Ok (Key ?r, RSAKey ?r)"
    by blast
  then show ?thesis
    by (auto simp: demo_root_key_def demo_meta_def)
qed


subsection \<open>SignClaims and VerifyClaim\<close>








subsection \<open>Key files with an unknown provider\<close>

lemma IsUUID_demo_uuid: "IsUUID demo_uuid"
  by (simp add: IsUUID_def demo_uuid_def is_hex_def)

lemma demo_unwrap:
  "kms_Decrypt demo_lib (AeadWrapper keyID demo_kek)
     (demo_dek (CHR ''a'') @ demo_tag demo_kek keyID) = Inr (demo_dek (CHR ''a''))"
  by (simp add: demo_lib_def demo_aead_def length_demo_tag demo_dek_def)

text \<open>
  C7, as the claim states it, fails: the key file of \<open>demo_uuid\<close> with the provider
  \<open>nonesuch\<close> in its record loads, and gives the root key.
\<close>

theorem C7_unknown_provider_counterexample:
  "loadKeyFromStore demo_lib demo_empty_encrypter
     (demo_disk [(demo_key_path, File (WrapperJSON (demo_wrapper demo_uuid ''nonesuch'')))])
     demo_key_path
   = Ok (demo_root_key demo_uuid (CHR ''a''))"
proof -
  have valid: "meta_Validate demo_lib
                 (Some (demo_meta demo_uuid [Some \<lparr>Provider = ''aead'', Name = []\<rparr>])) = None"
    by (simp add: demo_lib_def demo_meta_def IsUUID_demo_uuid)
  have key: "aead_SetAesGcmKeyBytes demo_lib demo_kek = None"
    by (simp add: demo_lib_def demo_kek_def demo_entropy_def)
  have id: "KeyID (demo_meta demo_uuid [Some \<lparr>Provider = ''aead'', Name = []\<rparr>]) = demo_uuid"
    by (simp add: demo_meta_def)
  show ?thesis
    by (simp add: loadKeyFromStore_def os_ReadFile_def demo_disk_def demo_wrapper_def Let_def
        newKMSWrapper_def valid key id demo_unwrap demo_root_key_def)
qed

text \<open>
  C7, amended. For a key file whose record names a provider other than \<open>awskms\<close>,
  \<open>azurekeyvault\<close>, \<open>gcpckms\<close> and \<open>transit\<close>, there is no unknown-provider error:
  \<open>newKMSWrapper\<close> takes the provider as the built-in AEAD and builds the wrapper
  from the record's key-encryption key, and the load returns what it returns for the
  same file with the provider \<open>aead\<close>.
\<close>

theorem C7_other_provider_loads_as_aead:
  assumes "provider \<noteq> ''awskms''" and "provider \<noteq> ''azurekeyvault''"
    and "provider \<noteq> ''gcpckms''" and "provider \<noteq> ''transit''"
    and "os_ReadFile w path = Inr (WrapperJSON kw)"
    and "kw_Provider kw = provider"
  shows "newKMSWrapper lib e provider name keyID kek =
           (case aead_SetAesGcmKeyBytes lib kek of
              Some err \<Rightarrow> Inl err
            | None \<Rightarrow> Inr (AeadWrapper keyID kek))
         \<and> loadKeyFromStore lib e w path =
             loadKeyFromStore lib e
               (w\<lparr>files := (path, File (WrapperJSON (kw\<lparr>kw_Provider := ''aead''\<rparr>))) # files w\<rparr>)
               path"
proof -
  have wrapper: "newKMSWrapper lib e provider n k kek' = newKMSWrapper lib e ''aead'' n k kek'"
    for n k kek'
    using assms(1-4) by (simp add: newKMSWrapper_def)
  have "newKMSWrapper lib e ''aead'' name keyID kek =
          (case aead_SetAesGcmKeyBytes lib kek of
             Some err \<Rightarrow> Inl err
           | None \<Rightarrow> Inr (AeadWrapper keyID kek))"
    by (simp add: newKMSWrapper_def)
  moreover have "os_ReadFile
      (w\<lparr>files := (path, File (WrapperJSON (kw\<lparr>kw_Provider := ''aead''\<rparr>))) # files w\<rparr>) path
      = Inr (WrapperJSON (kw\<lparr>kw_Provider := ''aead''\<rparr>))"
    by (simp add: os_ReadFile_def)
  then have "loadKeyFromStore lib e w path =
      loadKeyFromStore lib e
        (w\<lparr>files := (path, File (WrapperJSON (kw\<lparr>kw_Provider := ''aead''\<rparr>))) # files w\<rparr>) path"
    using assms(5,6)
    by (simp add: loadKeyFromStore_def wrapper Let_def split: option.split sum.split)
  ultimately show ?thesis
    by (simp add: wrapper)
qed

theorem C7_other_provider_loads_as_aead_witness:
  "loadKeyFromStore demo_lib demo_empty_encrypter
     (demo_disk [(demo_key_path, File (WrapperJSON (demo_wrapper demo_uuid ''nonesuch'')))])
     demo_key_path
   = loadKeyFromStore demo_lib demo_empty_encrypter
       (demo_disk [(demo_key_path, File (WrapperJSON (demo_wrapper demo_uuid ''aead''))),
                   (demo_key_path, File (WrapperJSON (demo_wrapper demo_uuid ''nonesuch'')))])
       demo_key_path"
proof -
  let ?w = "demo_disk [(demo_key_path, File (WrapperJSON (demo_wrapper demo_uuid ''nonesuch'')))]"
  have h5: "os_ReadFile ?w demo_key_path = Inr (WrapperJSON (demo_wrapper demo_uuid ''nonesuch''))"
    by (simp add: os_ReadFile_def demo_disk_def)
  have h6: "kw_Provider (demo_wrapper demo_uuid ''nonesuch'') = ''nonesuch''"
    by (simp add: demo_wrapper_def)
  show ?thesis
    using C7_other_provider_loads_as_aead [OF _ _ _ _ h5 h6, of demo_lib demo_empty_encrypter]
    by (simp add: demo_disk_def demo_wrapper_def)
qed



subsection \<open>File names of the keystore\<close>

lemma hex_run:
  assumes "list_all is_hex (take n (drop k s))" and "k \<le> i" and "i < k + n" and "i < length s"
  shows "is_hex (s ! i)"
proof -
  have "i - k < length (take n (drop k s))"
    using assms(2-4) by auto
  moreover have "take n (drop k s) ! (i - k) = s ! i"
    using assms(2-4) by simp
  ultimately show ?thesis
    using assms(1) by (metis list_all_length)
qed

lemma IsUUID_chars:
  assumes "IsUUID s" and "c \<in> set s"
  shows "is_hex c \<or> c = CHR ''-''"
proof -
  from assms(2) obtain i where i: "i < length s" and c: "s ! i = c"
    by (auto simp: in_set_conv_nth)
  have len: "length s = 36"
    using assms(1) by (simp add: IsUUID_def)
  have g0: "list_all is_hex (take 8 (drop 0 s))"
    using assms(1) by (simp add: IsUUID_def)
  have g1: "list_all is_hex (take 4 (drop 9 s))"
    and g2: "list_all is_hex (take 4 (drop 14 s))"
    and g3: "list_all is_hex (take 4 (drop 19 s))"
    and g4: "list_all is_hex (take 12 (drop 24 s))"
    using assms(1) unfolding IsUUID_def by blast+
  have h: "s ! 8 = CHR ''-''" "s ! 13 = CHR ''-''" "s ! 18 = CHR ''-''" "s ! 23 = CHR ''-''"
    using assms(1) by (simp_all add: IsUUID_def)
  consider "i < 8" | "i = 8" | "9 \<le> i \<and> i < 13" | "i = 13" | "14 \<le> i \<and> i < 18" | "i = 18"
    | "19 \<le> i \<and> i < 23" | "i = 23" | "24 \<le> i \<and> i < 36"
    using i len by linarith
  then show ?thesis
  proof cases
    case 1
    then show ?thesis using hex_run [OF g0, of i] i c by simp
  next
    case 2
    then show ?thesis using h c by simp
  next
    case 3
    then show ?thesis using hex_run [OF g1, of i] i c by simp
  next
    case 4
    then show ?thesis using h c by simp
  next
    case 5
    then show ?thesis using hex_run [OF g2, of i] i c by simp
  next
    case 6
    then show ?thesis using h c by simp
  next
    case 7
    then show ?thesis using hex_run [OF g3, of i] i c by simp
  next
    case 8
    then show ?thesis using h c by simp
  next
    case 9
    then show ?thesis using hex_run [OF g4, of i] i c by simp
  qed
qed

lemma IsUUID_no_dot: "IsUUID s \<Longrightarrow> CHR ''.'' \<notin> set s"
  using IsUUID_chars [of s "CHR ''.''"] by (auto simp: is_hex_def)


lemma IsUUID_up_to_dot:
  assumes "IsUUID s"
  shows "IsUUID (takeWhile (\<lambda>c. c \<noteq> CHR ''.'') s)"
proof -
  have "takeWhile (\<lambda>c. c \<noteq> CHR ''.'') s = s"
    using IsUUID_no_dot [OF assms] by auto
  then show ?thesis using assms by metis
qed




lemma is_child_neq: "is_child d path \<Longrightarrow> path \<noteq> d"
  by (auto simp: is_child_def Let_def)

subsection \<open>The walk over the keystore directory\<close>

lemma walkFn_skipped:
  assumes "skipped_entry path info" and "path \<noteq> keystorePath e"
  shows "walkFn lib w e path info = Next e \<or> walkFn lib w e path info = SkipDir"
proof (cases info)
  case Dir
  then show ?thesis using assms(2) by (simp add: walkFn_def)
next
  case (File doc)
  then have "\<not> has_suffix path nomadKeystoreExtension
      \<or> \<not> IsUUID (trim_suffix (path_base path) nomadKeystoreExtension)"
    using assms(1) IsUUID_up_to_dot by (auto simp: skipped_entry_def)
  then show ?thesis using File by (auto simp: walkFn_def Let_def)
next
  case (NoRead err)
  then have "\<not> has_suffix path nomadKeystoreExtension
      \<or> \<not> IsUUID (trim_suffix (path_base path) nomadKeystoreExtension)"
    using assms(1) IsUUID_up_to_dot by (auto simp: skipped_entry_def)
  then show ?thesis using NoRead by (auto simp: walkFn_def Let_def)
next
  case (NoStat err)
  then show ?thesis using assms(1) by (simp add: skipped_entry_def)
qed

lemma walk_entries_skipped:
  assumes "\<forall>(path, info) \<in> set entries. skipped_entry path info \<and> path \<noteq> keystorePath e"
  shows "walk_entries lib w entries e = Ok e"
  using assms
proof (induction entries)
  case Nil
  then show ?case by simp
next
  case (Cons entry entries)
  obtain path info where entry: "entry = (path, info)"
    by (cases entry)
  from Cons.prems entry have "skipped_entry path info" and "path \<noteq> keystorePath e"
    by auto
  from walkFn_skipped [OF this, of lib w] Cons show ?case
    by (auto simp: entry)
qed

lemma loadKeystore_skipped:
  assumes "mkdir_error w = None"
    and "\<not> has_suffix (keystorePath e) nomadKeystoreExtension"
    and "\<forall>(path, info) \<in> set (files w). is_child (keystorePath e) path \<longrightarrow> skipped_entry path info"
  shows "loadKeystore lib w e = Ok e"
proof -
  have root: "walkFn lib w e (keystorePath e) Dir = Next e"
    using assms(2) by (simp add: walkFn_def)
  have "\<forall>(path, info) \<in> set (read_dir w (keystorePath e)).
          skipped_entry path info \<and> path \<noteq> keystorePath e"
    using assms(3) is_child_neq by (auto simp: read_dir_def)
  from walk_entries_skipped [OF this] show ?thesis
    using assms(1) root by (simp add: loadKeystore_def filepath_Walk_def)
qed

lemma loadKeyFromStore_Meta:
  assumes "loadKeyFromStore lib e w path = Ok key"
    and "os_ReadFile w path = Inr (WrapperJSON kekWrapper)"
  shows "Meta key = kw_Meta kekWrapper"
  using assms
  by (auto simp: loadKeyFromStore_def Let_def split: option.splits sum.splits if_splits)

lemma walkFn_mismatched:
  assumes "map_of (files w) path = Some (File (WrapperJSON kekWrapper))"
    and "mismatched_key_file path kekWrapper"
  shows "(\<exists>err. walkFn lib w e path (File (WrapperJSON kekWrapper)) = Fail err)
       \<or> (\<exists>msg. walkFn lib w e path (File (WrapperJSON kekWrapper)) = Crash msg)"
proof -
  let ?id = "trim_suffix (path_base path) nomadKeystoreExtension"
  have read: "os_ReadFile w path = Inr (WrapperJSON kekWrapper)"
    using assms(1) by (simp add: os_ReadFile_def)
  from assms(2) obtain m where
    suffix: "has_suffix path nomadKeystoreExtension" and uuid: "IsUUID ?id"
    and m: "kw_Meta kekWrapper = Some m" and differ: "KeyID m \<noteq> ?id"
    by (auto simp: mismatched_key_file_def split: option.splits)
  show ?thesis
  proof (cases "loadKeyFromStore lib e w path")
    case (Ok key)
    then have "Meta key = Some m"
      using loadKeyFromStore_Meta [OF Ok read] m by simp
    then show ?thesis
      using Ok suffix uuid differ by (simp add: walkFn_def Let_def)
  next
    case (Err err)
    then show ?thesis using suffix uuid by (simp add: walkFn_def Let_def)
  next
    case (Panic msg)
    then show ?thesis using suffix uuid by (simp add: walkFn_def Let_def)
  qed
qed

lemma walk_entries_fails:
  assumes "(path, info) \<in> set entries"
    and "\<And>e'. (\<exists>err. walkFn lib w e' path info = Fail err)
              \<or> (\<exists>msg. walkFn lib w e' path info = Crash msg)"
  shows "\<not> is_Ok (walk_entries lib w entries e)"
  using assms(1)
proof (induction entries arbitrary: e)
  case Nil
  then show ?case by simp
next
  case (Cons entry entries)
  obtain path' info' where entry: "entry = (path', info')"
    by (cases entry)
  show ?case
  proof (cases "entry = (path, info)")
    case True
    then show ?thesis using assms(2) [of e] by (auto simp: entry)
  next
    case False
    then have "(path, info) \<in> set entries"
      using Cons.prems by simp
    then have "\<not> is_Ok (walk_entries lib w entries e')" for e'
      using Cons.IH by blast
    then show ?thesis
      by (cases "walkFn lib w e path' info'") (simp_all add: entry)
  qed
qed

lemma loadKeystore_mismatched:
  assumes "map_of (files w) path = Some (File (WrapperJSON kekWrapper))"
    and "is_child (keystorePath e) path"
    and "mismatched_key_file path kekWrapper"
  shows "\<not> is_Ok (loadKeystore lib w e)"
proof -
  have "(path, File (WrapperJSON kekWrapper)) \<in> set (files w)"
    using assms(1) by (rule map_of_SomeD)
  then have member: "(path, File (WrapperJSON kekWrapper)) \<in> set (read_dir w (keystorePath e))"
    using assms(2) by (simp add: read_dir_def)
  have walk: "\<not> is_Ok (walk_entries lib w (read_dir w (keystorePath e)) e')" for e'
    using walk_entries_fails [OF member] walkFn_mismatched [OF assms(1,3)] by blast
  have "walkFn lib w e (keystorePath e) Dir \<noteq> SkipDir"
    by (auto simp: walkFn_def Let_def split: result.split option.split)
  then show ?thesis
    using walk
    by (cases "walkFn lib w e (keystorePath e) Dir")
       (simp_all add: loadKeystore_def filepath_Walk_def split: option.split)
qed


lemma demo_root: "keystorePath demo_empty_encrypter = ''/var/nomad/keystore''"
  by (simp add: demo_empty_encrypter_def demo_encrypter_def)

text \<open>
  C8, as the claim states it, fails: a file that ends in the keystore extension and whose
  prefix is not a well-formed UUID is not rejected. The load of a directory that holds
  only this file succeeds and leaves the keyring as it was.
\<close>

theorem C8_non_uuid_prefix_counterexample:
  "has_suffix ''/var/nomad/keystore/not-a-uuid.nks.json'' nomadKeystoreExtension
   \<and> \<not> IsUUID (trim_suffix (path_base ''/var/nomad/keystore/not-a-uuid.nks.json'')
                   nomadKeystoreExtension)
   \<and> loadKeystore demo_lib
         (demo_disk [(''/var/nomad/keystore/not-a-uuid.nks.json'', File NotJSON)])
         demo_empty_encrypter
       = Ok demo_empty_encrypter"
proof -
  let ?path = "''/var/nomad/keystore/not-a-uuid.nks.json''"
  have suffix: "has_suffix ?path nomadKeystoreExtension"
    by code_simp
  have prefix: "trim_suffix (path_base ?path) nomadKeystoreExtension = ''not-a-uuid''"
    by code_simp
  have no_uuid: "\<not> IsUUID ''not-a-uuid''"
    by (simp add: IsUUID_def)
  have skipped: "skipped_entry ?path (File NotJSON)"
    using IsUUID_def by (simp add: skipped_entry_def prefix)
  have root: "\<not> has_suffix (keystorePath demo_empty_encrypter) nomadKeystoreExtension"
    unfolding demo_root by code_simp
  have "loadKeystore demo_lib (demo_disk [(?path, File NotJSON)]) demo_empty_encrypter
          = Ok demo_empty_encrypter"
    by (rule loadKeystore_skipped [OF _ root]) (simp_all add: demo_disk_def skipped)
  then show ?thesis
    using suffix prefix no_uuid by simp
qed

text \<open>
  C8, amended. Subdirectories, files that do not end in the keystore extension, and files
  that end in it whose prefix (up to its first dot) is not a well-formed UUID are skipped
  without error: a load of a directory with only such entries succeeds and leaves the
  keyring as it was. A file that ends in the extension, with a well-formed UUID as
  prefix, whose embedded \<^verbatim>\<open>Meta.KeyID\<close> disagrees with the prefix is rejected: the load of
  a directory that holds it fails.
\<close>

theorem C8_load_skips_and_rejects:
  "(mkdir_error w = None
      \<and> \<not> has_suffix (keystorePath e) nomadKeystoreExtension
      \<and> (\<forall>(path, info) \<in> set (files w). is_child (keystorePath e) path \<longrightarrow> skipped_entry path info)
      \<longrightarrow> loadKeystore lib w e = Ok e)
   \<and> (map_of (files w') path' = Some (File (WrapperJSON kekWrapper))
      \<and> is_child (keystorePath e) path'
      \<and> mismatched_key_file path' kekWrapper
      \<longrightarrow> \<not> is_Ok (loadKeystore lib w' e))"
proof (intro conjI impI)
  assume "mkdir_error w = None
      \<and> \<not> has_suffix (keystorePath e) nomadKeystoreExtension
      \<and> (\<forall>(path, info) \<in> set (files w). is_child (keystorePath e) path \<longrightarrow> skipped_entry path info)"
  then show "loadKeystore lib w e = Ok e"
    using loadKeystore_skipped [of w e lib] by blast
next
  assume "map_of (files w') path' = Some (File (WrapperJSON kekWrapper))
      \<and> is_child (keystorePath e) path'
      \<and> mismatched_key_file path' kekWrapper"
  then show "\<not> is_Ok (loadKeystore lib w' e)"
    using loadKeystore_mismatched [of w' path' kekWrapper e lib] by blast
qed

theorem C8_load_skips_and_rejects_witness:
  "loadKeystore demo_lib
     (demo_disk [(''/var/nomad/keystore/README.md'', File NotJSON),
                 (''/var/nomad/keystore/backup'', Dir),
                 (''/var/nomad/keystore/not-a-uuid.nks.json'', File NotJSON)])
     demo_empty_encrypter
   = Ok demo_empty_encrypter
   \<and> \<not> is_Ok (loadKeystore demo_lib
         (demo_disk [(path_join ''/var/nomad/keystore'' (demo_other_uuid @ nomadKeystoreExtension),
                      File (WrapperJSON (demo_wrapper demo_uuid ''aead'')))])
         demo_empty_encrypter)"
proof -
  let ?w = "demo_disk [(''/var/nomad/keystore/README.md'', File NotJSON),
                       (''/var/nomad/keystore/backup'', Dir),
                       (''/var/nomad/keystore/not-a-uuid.nks.json'', File NotJSON)]"
  let ?p = "path_join ''/var/nomad/keystore'' (demo_other_uuid @ nomadKeystoreExtension)"
  let ?w' = "demo_disk [(?p, File (WrapperJSON (demo_wrapper demo_uuid ''aead'')))]"
  have root: "\<not> has_suffix (keystorePath demo_empty_encrypter) nomadKeystoreExtension"
    unfolding demo_root by code_simp
  have s1: "skipped_entry ''/var/nomad/keystore/README.md'' (File NotJSON)"
    by code_simp
  have s2: "skipped_entry ''/var/nomad/keystore/backup'' Dir"
    by (simp add: skipped_entry_def)
  have s3: "skipped_entry ''/var/nomad/keystore/not-a-uuid.nks.json'' (File NotJSON)"
    by code_simp
  have a: "mkdir_error ?w = None
      \<and> \<not> has_suffix (keystorePath demo_empty_encrypter) nomadKeystoreExtension
      \<and> (\<forall>(path, info) \<in> set (files ?w).
            is_child (keystorePath demo_empty_encrypter) path \<longrightarrow> skipped_entry path info)"
    using root s1 s2 s3 by (simp add: demo_disk_def)
  have child: "is_child (keystorePath demo_empty_encrypter) ?p"
    unfolding demo_root by code_simp
  have mismatch: "mismatched_key_file ?p (demo_wrapper demo_uuid ''aead'')"
    by code_simp
  have b: "map_of (files ?w') ?p = Some (File (WrapperJSON (demo_wrapper demo_uuid ''aead'')))
      \<and> is_child (keystorePath demo_empty_encrypter) ?p
      \<and> mismatched_key_file ?p (demo_wrapper demo_uuid ''aead'')"
    using child mismatch by (simp add: demo_disk_def)
  show ?thesis
    using C8_load_skips_and_rejects [of ?w demo_empty_encrypter demo_lib ?w' ?p
        "demo_wrapper demo_uuid ''aead''"] a b
    by blast
qed

subsection \<open>Keys saved under an external provider\<close>




subsection \<open>The keyring that the code builds\<close>

text \<open>
  The invariant holds of the empty keyring; \<open>addCipher\<close>, \<open>RemoveKey\<close>, the walk of the
  keystore and so \<open>loadKeystore\<close> maintain it, and an encrypter that \<open>NewEncrypter\<close>
  returns has it. A keyset that \<open>addCipher\<close> installs holds the given root key and, for
  an RSA key, the PKCS#1 form of its public half.
\<close>

lemma addCipher_keyring_wf:
  assumes "keyring_wf e" and "addCipher lib e rkey = Ok e'"
  shows "keyring_wf e'"
  using assms
  by (auto simp: addCipher_def keyring_wf_def Let_def
      split: option.splits if_splits sum.splits)

lemma RemoveKey_keyring_wf: "keyring_wf e \<Longrightarrow> keyring_wf (RemoveKey e keyID)"
  by (simp add: RemoveKey_def keyring_wf_def)

lemma walkFn_keyring_wf:
  assumes "keyring_wf e" and "walkFn lib w e path info = Next e'"
  shows "keyring_wf e'"
proof (cases "\<exists>key. addCipher lib e (Some key) = Ok e'")
  case True
  then show ?thesis using assms(1) addCipher_keyring_wf by blast
next
  case False
  then have "e' = e"
    using assms(2)
    by (auto simp: walkFn_def Let_def split: node.splits if_splits result.splits option.splits)
  then show ?thesis using assms(1) by simp
qed

lemma walk_entries_keyring_wf:
  assumes "keyring_wf e" and "walk_entries lib w entries e = Ok e'"
  shows "keyring_wf e'"
  using assms
proof (induction entries arbitrary: e)
  case Nil
  then show ?case by simp
next
  case (Cons entry entries)
  obtain path info where entry: "entry = (path, info)"
    by (cases entry)
  show ?case
  proof (cases "walkFn lib w e path info")
    case (Next e1)
    then show ?thesis
      using Cons walkFn_keyring_wf [OF Cons.prems(1) Next] by (simp add: entry)
  next
    case SkipDir
    then show ?thesis using Cons by (simp add: entry)
  next
    case (Fail err)
    then show ?thesis using Cons.prems by (simp add: entry)
  next
    case (Crash msg)
    then show ?thesis using Cons.prems by (simp add: entry)
  qed
qed

lemma loadKeystore_keyring_wf:
  assumes "keyring_wf e" and "loadKeystore lib w e = Ok e'"
  shows "keyring_wf e'"
proof (cases "walkFn lib w e (keystorePath e) Dir")
  case (Next e1)
  then have "walk_entries lib w (read_dir w (keystorePath e)) e1 = Ok e'"
    using assms(2) by (simp add: loadKeystore_def filepath_Walk_def split: option.splits)
  then show ?thesis
    using walk_entries_keyring_wf walkFn_keyring_wf [OF assms(1) Next] by blast
next
  case SkipDir
  then show ?thesis
    using assms by (simp add: loadKeystore_def filepath_Walk_def split: option.splits)
next
  case (Fail err)
  then show ?thesis
    using assms by (simp add: loadKeystore_def filepath_Walk_def split: option.splits)
next
  case (Crash msg)
  then show ?thesis
    using assms by (simp add: loadKeystore_def filepath_Walk_def split: option.splits)
qed

lemma NewEncrypter_keyring_wf:
  assumes "NewEncrypter lib w srv path = Ok e"
  shows "keyring_wf e"
proof -
  let ?e0 = "\<lparr>providerConfigs = None, keystorePath = path, issuer = OIDCIssuer srv,
              keyring = Map.empty\<rparr>"
  have wf0: "keyring_wf ?e0"
    by (simp add: keyring_wf_def)
  have "KEKProviderConfigs srv = []"
  proof (cases "KEKProviderConfigs srv")
    case Nil
    then show ?thesis .
  next
    case (Cons provider providers)
    then show ?thesis
      using assms by (cases provider) (simp_all add: NewEncrypter_def)
  qed
  then have "loadKeystore lib w ?e0 = Ok e"
    using assms by (simp add: NewEncrypter_def split: result.splits)
  then show ?thesis
    using loadKeystore_keyring_wf [OF wf0] by blast
qed

lemma addCipher_keyset_consistent:
  assumes "addCipher lib e (Some r) = Ok e'" and "Meta r = Some m"
  shows "\<exists>ks. keyring e' (KeyID m) = Some ks \<and> rootKey ks = r
           \<and> (case rsaPrivateKey ks of
                 None \<Rightarrow> True
               | Some priv \<Rightarrow>
                   rsaPKCS1PublicKey ks = x509_MarshalPKCS1PublicKey lib (rsa_PublicKey lib priv))"
  using assms
  by (auto simp: addCipher_def Let_def split: option.splits if_splits sum.splits)

subsection \<open>The built-in provider on the sample key\<close>

text \<open>
  With the built-in AEAD provider the keystore round trip works on the sample key: the
  save writes \<^verbatim>\<open><KeyID>.nks.json\<close>, and the load of that directory installs the keyset.
\<close>

lemma demo_saved:
  "saveKeyToStore demo_lib demo_empty_encrypter (demo_disk []) (demo_root_key demo_uuid (CHR ''a''))
     = (Ok (),
        (demo_disk [(demo_key_path, File (WrapperJSON (demo_wrapper demo_uuid ''aead'')))])
          \<lparr>entropy := drop 32 demo_entropy\<rparr>)"
proof -
  have kek: "crypto_Bytes 32 demo_entropy = Inr (take 32 demo_entropy)"
    by (simp add: crypto_Bytes_def demo_entropy_def)
  have len: "length demo_entropy = 46"
    by (simp add: demo_entropy_def)
  show ?thesis
    unfolding saveKeyToStore_def
    by (simp add: demo_root_key_def demo_meta_def encryptDEK_def newKMSWrapper_def kek len
        demo_empty_encrypter_def demo_encrypter_def demo_lib_def demo_aead_def
        os_WriteFile_def demo_disk_def demo_wrapper_def demo_key_path_def demo_kek_def
        key_file_extension_def Let_def)
qed

lemma demo_loaded:
  "loadKeystore demo_lib
     ((demo_disk [(demo_key_path, File (WrapperJSON (demo_wrapper demo_uuid ''aead'')))])
        \<lparr>entropy := drop 32 demo_entropy\<rparr>)
     demo_empty_encrypter
   = Ok (demo_empty_encrypter\<lparr>keyring := [demo_uuid \<mapsto> demo_keyset demo_uuid (CHR ''a'')]\<rparr>)"
proof -
  let ?w = "(demo_disk [(demo_key_path, File (WrapperJSON (demo_wrapper demo_uuid ''aead'')))])
              \<lparr>entropy := drop 32 demo_entropy\<rparr>"
  let ?m = "demo_meta demo_uuid [Some \<lparr>Provider = ''aead'', Name = []\<rparr>]"
  have valid: "meta_Validate demo_lib (Some ?m) = None"
    by (simp add: demo_lib_def demo_meta_def IsUUID_demo_uuid)
  have key: "aead_SetAesGcmKeyBytes demo_lib demo_kek = None"
    by (simp add: demo_lib_def demo_kek_def demo_entropy_def)
  have id: "KeyID ?m = demo_uuid"
    by (simp add: demo_meta_def)
  have load: "loadKeyFromStore demo_lib demo_empty_encrypter ?w demo_key_path
                = Ok (demo_root_key demo_uuid (CHR ''a''))"
    by (simp add: loadKeyFromStore_def os_ReadFile_def demo_disk_def demo_wrapper_def Let_def
        newKMSWrapper_def valid key id demo_unwrap demo_root_key_def)
  have add: "addCipher demo_lib demo_empty_encrypter (Some (demo_root_key demo_uuid (CHR ''a'')))
               = Ok (demo_empty_encrypter\<lparr>keyring := [demo_uuid \<mapsto> demo_keyset demo_uuid (CHR ''a'')]\<rparr>)"
    by (simp add: addCipher_def demo_lib_def demo_root_key_def demo_meta_def demo_dek_def
        demo_keyset_def demo_empty_encrypter_def demo_encrypter_def)
  have meta: "Meta (demo_root_key demo_uuid (CHR ''a'')) = Some ?m"
    by (simp add: demo_root_key_def)
  have suffix: "has_suffix demo_key_path nomadKeystoreExtension"
    by code_simp
  have prefix: "trim_suffix (path_base demo_key_path) nomadKeystoreExtension = demo_uuid"
    by code_simp
  have child: "is_child (keystorePath demo_empty_encrypter) demo_key_path"
    unfolding demo_root by code_simp
  have differ: "demo_key_path \<noteq> keystorePath demo_empty_encrypter"
    using child by (rule is_child_neq)
  have step: "walkFn demo_lib ?w demo_empty_encrypter demo_key_path
                (File (WrapperJSON (demo_wrapper demo_uuid ''aead'')))
              = Next (demo_empty_encrypter\<lparr>keyring := [demo_uuid \<mapsto> demo_keyset demo_uuid (CHR ''a'')]\<rparr>)"
    using differ
    by (simp add: walkFn_def suffix prefix IsUUID_demo_uuid load add Let_def meta id)
  have root: "walkFn demo_lib ?w demo_empty_encrypter (keystorePath demo_empty_encrypter) Dir
                = Next demo_empty_encrypter"
    by (simp add: walkFn_def demo_root has_suffix_def nomadKeystoreExtension_def)
  have dir: "read_dir ?w (keystorePath demo_empty_encrypter)
               = [(demo_key_path, File (WrapperJSON (demo_wrapper demo_uuid ''aead'')))]"
    using child by (simp add: read_dir_def demo_disk_def)
  have walk: "filepath_Walk demo_lib ?w demo_empty_encrypter
                = Ok (demo_empty_encrypter\<lparr>keyring := [demo_uuid \<mapsto> demo_keyset demo_uuid (CHR ''a'')]\<rparr>)"
    by (simp add: filepath_Walk_def root dir step)
  have "mkdir_error ?w = None"
    by (simp add: demo_disk_def)
  then show ?thesis
    by (simp add: loadKeystore_def walk)
qed

end
